theory Spec2Isabelle
  imports Complex_Main "HOL-Library.AList" "HOL-Library.Log_Nat"
begin

section \<open>NestWise orchestration engine (backend-langgraph/Agentic\_AI/langgraph.py)\<close>

text \<open>
  A shallow embedding of the multi-agent orchestration of \<^verbatim>\<open>langgraph.py\<close>: the profile
  dictionaries, the agent node functions, the two state graphs and the session entry points
  \<^verbatim>\<open>start_session\<close> and \<^verbatim>\<open>chat_step\<close>.

  Conventions.
  \<^item> A Python dictionary is an association list in insertion order; \<^verbatim>\<open>d[k] = v\<close> is
    \<^const>\<open>AList.update\<close> (an existing key keeps its place, a new key goes to the end).
  \<^item> An exception is the left summand of a result \<open>exn + 'a\<close>.
  \<^item> A Python \<^verbatim>\<open>float\<close> is the rational number it denotes; the one operation on floats in
    the module, the division of two integers, rounds as Python does.
  \<^item> Calls that leave the repository (the language models, the vector store, the JSON
    library, Python's \<^verbatim>\<open>str\<close> of a dictionary, LangGraph's message reducer) are fields of an
    environment record \<open>env\<close>, so every theorem holds for all their behaviours.
  \<^item> Long prompt literals are cut after their opening sentences; the substrings the code
    tests for and every interpolated value are kept.
\<close>

subsection \<open>Data\<close>

datatype exn =
    JSONDecodeError
  | ZeroDivisionError
  | OverflowError
  | AttributeError
  | NotImplementedError
  | KeyError
  | TypeError
  | IndexError
  | GraphRecursionError
  | ModelError string

text \<open>A completion entry \<^verbatim>\<open>{"collected": b, "importance": n}\<close> and the shadow profile.\<close>

record entry =
  collected :: bool
  importance :: int

type_synonym completion_map = "(string \<times> entry) list"

text \<open>Values decoded from JSON, which are also the values of the real profile.\<close>

datatype jvalue =
    JNull
  | JBool bool
  | JNum rat
  | JStr string
  | JList "jvalue list"
  | JDict "(string \<times> jvalue) list"

type_synonym profile_values = "(string \<times> jvalue) list"

datatype role = system | human | ai | tool

datatype message = Message (mtype: role) (content: string) (tool_calls: "string list")

definition SystemMessage :: "string \<Rightarrow> message" where
  "SystemMessage c = Message system c []"

definition HumanMessage :: "string \<Rightarrow> message" where
  "HumanMessage c = Message human c []"

definition AIMessage :: "string \<Rightarrow> message" where
  "AIMessage c = Message ai c []"

definition ToolMessage :: "string \<Rightarrow> message" where
  "ToolMessage c = Message tool c []"

text \<open>
  The sub-agent states. A key that the code reads with a default
  (\<^verbatim>\<open>state.get("real_profile", {})\<close>) is an option; a key that is always written before it
  is read is a plain field.
\<close>

record chatbot_state =
  cb_messages :: "message list"
  cb_shadow_profile :: "completion_map option"

record extractor_state =
  ex_messages :: "message list"
  ex_real_profile :: "profile_values option"
  ex_shadow_profile :: completion_map
  all_fields_filled :: bool
  ex_conversation_title :: string

record matcher_state =
  m_messages :: "message list"
  m_real_profile :: profile_values
  m_shadow_profile :: completion_map
  selected_template :: "string option"

record summarizer_state =
  sm_messages :: "message list"
  summary :: "string option"

record planner_state =
  pl_messages :: "message list"
  pl_real_profile :: "profile_values option"
  pl_shadow_profile :: "completion_map option"

record master_state =
  messages :: "message option list"
  chatbot :: chatbot_state
  extractor :: extractor_state
  summarizer :: "summarizer_state option"
  matcher :: matcher_state
  real_profile :: profile_values
  shadow_profile :: completion_map
  conversation_title :: string
  planner :: "planner_state option"

subsection \<open>Constants\<close>

definition COMPLETENESSRATIO :: rat where
  "COMPLETENESSRATIO = 1"

definition MAXRATING :: int where
  "MAXRATING = max 2 5"

subsection \<open>Routing after the extractor\<close>

text \<open>
  The loop of \<^verbatim>\<open>route_decision_extractor\<close> over \<^verbatim>\<open>profile.items()\<close>, with its three
  accumulators \<^verbatim>\<open>totImportance\<close>, \<^verbatim>\<open>totFilledImportance\<close> and \<^verbatim>\<open>needsCriticalInfo\<close>.
\<close>

fun route_loop :: "completion_map \<Rightarrow> int \<times> int \<times> bool \<Rightarrow> int \<times> int \<times> bool" where
  "route_loop [] acc = acc"
| "route_loop ((field, info) # rest) (totImportance, totFilledImportance, needsCriticalInfo) =
     route_loop rest
       (totImportance + importance info,
        totFilledImportance + (if collected info then importance info else 0),
        needsCriticalInfo \<or> (importance info = MAXRATING \<and> \<not> collected info))"

text \<open>
  Python's \<^verbatim>\<open>/\<close> on two integers. A zero divisor raises \<^verbatim>\<open>ZeroDivisionError\<close>. Otherwise the
  result is the double nearest to the exact quotient, a tie going to the even significand:
  with \<open>2 ^ e \<le> \<bar>q\<bar> < 2 ^ (e + 1)\<close> the doubles around \<open>q\<close> are the multiples of
  \<open>2 ^ (e - 52)\<close>, and of \<open>2 ^ (- 1074)\<close> in the subnormal range. A rounded result of
  magnitude \<open>2 ^ 1024\<close> or more raises \<^verbatim>\<open>OverflowError\<close>
  (\<^verbatim>\<open>integer division result too large for a float\<close>).
\<close>

definition pow2 :: "int \<Rightarrow> rat" where
  "pow2 k = (if 0 \<le> k then 2 ^ nat k else 1 / 2 ^ nat (- k))"

definition round_half_even :: "rat \<Rightarrow> int" where
  "round_half_even x =
     (let f = \<lfloor>x\<rfloor>; d = x - of_int f in
      if d < 1 / 2 then f
      else if 1 / 2 < d then f + 1
      else if even f then f else f + 1)"

text \<open>The exponent \<open>e\<close> of a positive rational, from the bit lengths of its numerator and denominator.\<close>

definition binary_exponent :: "rat \<Rightarrow> int" where
  "binary_exponent q =
     (case quotient_of q of (n, d) \<Rightarrow>
        let e0 = bitlen n - bitlen d in
        if pow2 e0 \<le> q then e0 else e0 - 1)"

definition round_double :: "rat \<Rightarrow> rat" where
  "round_double q =
     (if q = 0 then 0
      else let p = max (binary_exponent \<bar>q\<bar> - 52) (- 1074) in
           of_int (round_half_even (q / pow2 p)) * pow2 p)"

definition truediv :: "int \<Rightarrow> int \<Rightarrow> exn + rat" where
  "truediv a b =
     (if b = 0 then Inl ZeroDivisionError
      else let r = round_double (of_int a / of_int b) in
           if pow2 1024 \<le> \<bar>r\<bar> then Inl OverflowError else Inr r)"

text \<open>
  \<^verbatim>\<open>currentCompleteness = totFilledImportance/totImportance\<close>, unguarded. The function
  returns the pair the code prints, \<^verbatim>\<open>(currentCompleteness, needsCriticalInfo)\<close>.
\<close>

definition current_completeness :: "completion_map \<Rightarrow> exn + rat \<times> bool" where
  "current_completeness profile =
     (case route_loop profile (0, 0, False) of
        (totImportance, totFilledImportance, needsCriticalInfo) \<Rightarrow>
          (case truediv totFilledImportance totImportance of
             Inl e \<Rightarrow> Inl e
           | Inr currentCompleteness \<Rightarrow> Inr (currentCompleteness, needsCriticalInfo)))"

text \<open>\<^verbatim>\<open>not current_template\<close>: the key is missing, or the string is empty.\<close>

definition no_template :: "string option \<Rightarrow> bool" where
  "no_template current_template = (current_template = None \<or> current_template = Some [])"

definition route_decision_extractor :: "master_state \<Rightarrow> exn + string" where
  "route_decision_extractor state =
     (let profile = shadow_profile state;
          current_template = selected_template (matcher state)
      in case current_completeness profile of
           Inl e \<Rightarrow> Inl e
         | Inr (currentCompleteness, needsCriticalInfo) \<Rightarrow>
             if \<not> needsCriticalInfo \<and> currentCompleteness \<ge> COMPLETENESSRATIO then
               (if no_template current_template then Inr ''matcher'' else Inr ''planner'')
             else Inr ''chatbot'')"

subsection \<open>The environment: calls that leave the repository\<close>

record document =
  doc_source :: "string option"
  doc_page :: "int option"
  page_content :: string

text \<open>
  \<^item> \<open>model_*\<close>: \<^verbatim>\<open>model.invoke(messages)\<close>; it returns the response message or raises.
  \<^item> \<open>matcher_chain\<close>: \<^verbatim>\<open>(system_prompt_matcher | model_matcher).invoke({"user_goal": g})\<close>.
  \<^item> \<open>similarity_search\<close>: \<^verbatim>\<open>vector_store.similarity_search(query, k)\<close>.
  \<^item> \<open>json_loads\<close>: \<^verbatim>\<open>json.loads\<close>, with \<open>None\<close> for \<^verbatim>\<open>JSONDecodeError\<close>;
    \<open>json_dumps\<close>: \<^verbatim>\<open>json.dumps(v, indent=2)\<close>.
  \<^item> \<open>add_messages\<close>: the reducer of LangGraph's \<^verbatim>\<open>MessagesState\<close>, applied to the
    channel's list and the list a node returns.
  \<^item> \<open>tools_condition\<close> and \<open>ToolNode\<close>: the prebuilt router and tool node of LangGraph;
    \<open>ToolNode\<close> takes the tool function and the state's messages and returns the tool
    messages.
  \<^item> \<open>str_*\<close>: Python's \<^verbatim>\<open>str\<close> as an f-string applies it.
\<close>

record env =
  model_chatbot :: "message list \<Rightarrow> exn + message"
  model_extractor :: "message list \<Rightarrow> exn + message"
  matcher_chain :: "jvalue \<Rightarrow> exn + message"
  model_planner_with_tools :: "message list \<Rightarrow> exn + message"
  model_planner :: "message list \<Rightarrow> exn + message"
  model_formatter :: "message list \<Rightarrow> exn + message"
  similarity_search :: "string \<Rightarrow> nat \<Rightarrow> exn + document list"
  json_loads :: "string \<Rightarrow> jvalue option"
  json_dumps :: "jvalue \<Rightarrow> string"
  add_messages :: "message list \<Rightarrow> message list \<Rightarrow> message list"
  tools_condition :: "message list \<Rightarrow> exn + string"
  ToolNode :: "(string \<Rightarrow> exn + string) \<Rightarrow> message list \<Rightarrow> exn + message list"
  str_completion_map :: "completion_map \<Rightarrow> string"
  str_profile_values :: "profile_values \<Rightarrow> string"
  str_int :: "int \<Rightarrow> string"
  str_message :: "message \<Rightarrow> string"

subsection \<open>Python built-ins\<close>

text \<open>\<^verbatim>\<open>not v\<close> is \<open>\<not> truthy v\<close>.\<close>

fun truthy :: "jvalue \<Rightarrow> bool" where
  "truthy JNull = False"
| "truthy (JBool b) = b"
| "truthy (JNum n) = (n \<noteq> 0)"
| "truthy (JStr s) = (s \<noteq> [])"
| "truthy (JList xs) = (xs \<noteq> [])"
| "truthy (JDict kvs) = (kvs \<noteq> [])"

text \<open>\<^verbatim>\<open>d.update(other)\<close>: the items of \<open>other\<close> are stored in their order.\<close>

definition dict_update :: "('k \<times> 'v) list \<Rightarrow> ('k \<times> 'v) list \<Rightarrow> ('k \<times> 'v) list" where
  "dict_update d other = fold (\<lambda>(k, v). AList.update k v) other d"

text \<open>\<^verbatim>\<open>str.strip()\<close> and \<^verbatim>\<open>str.lower()\<close> on ASCII text.\<close>

definition is_space :: "char \<Rightarrow> bool" where
  "is_space c =
     (c = CHR '' '' \<or> c = CHR 0x09 \<or> c = CHR 0x0A \<or> c = CHR 0x0B \<or> c = CHR 0x0C \<or> c = CHR 0x0D
      \<or> c = CHR 0x1C \<or> c = CHR 0x1D \<or> c = CHR 0x1E \<or> c = CHR 0x1F)"

definition strip :: "string \<Rightarrow> string" where
  "strip s = rev (dropWhile is_space (rev (dropWhile is_space s)))"

definition lower_char :: "char \<Rightarrow> char" where
  "lower_char c =
     (case map_of (zip ''ABCDEFGHIJKLMNOPQRSTUVWXYZ'' ''abcdefghijklmnopqrstuvwxyz'') c of
        Some d \<Rightarrow> d
      | None \<Rightarrow> c)"

definition lower :: "string \<Rightarrow> string" where
  "lower s = map lower_char s"

definition startswith :: "string \<Rightarrow> string \<Rightarrow> bool" where
  "startswith s p = (take (length p) s = p)"

text \<open>\<^verbatim>\<open>sub in s\<close> for strings.\<close>

fun contains :: "string \<Rightarrow> string \<Rightarrow> bool" where
  "contains [] sub = (sub = [])"
| "contains (c # cs) sub = (startswith (c # cs) sub \<or> contains cs sub)"

text \<open>\<^verbatim>\<open>sep.join(parts)\<close>.\<close>

fun join :: "string \<Rightarrow> string list \<Rightarrow> string" where
  "join sep [] = []"
| "join sep [x] = x"
| "join sep (x # y # ys) = x @ sep @ join sep (y # ys)"

text \<open>\<^verbatim>\<open>os.path.basename\<close>: what follows the last slash.\<close>

definition basename :: "string \<Rightarrow> string" where
  "basename path = rev (takeWhile (\<lambda>c. c \<noteq> CHR ''/'') (rev path))"

text \<open>\<^verbatim>\<open>xs[-1:]\<close>: the last element as a list, or the empty list.\<close>

definition last_slice :: "'a list \<Rightarrow> 'a list" where
  "last_slice xs = (if xs = [] then [] else [last xs])"

subsection \<open>Prompts and templates\<close>

definition system_prompt_chatbot :: message where
  "system_prompt_chatbot = SystemMessage
     ''\<newline>You are NestWise, a financial planning assistant.\<newline>You must ONLY talk about retirement and personal finance.\<newline>''"

definition system_prompt_summarize :: message where
  "system_prompt_summarize = SystemMessage
     ''\<newline>You are a helpful assistant that summarizes conversations about retirement planning.\<newline>''"

definition system_prompt_extract :: message where
  "system_prompt_extract = SystemMessage
     ''\<newline>You will be analyzing the conversation history between a user and a chatbot about retirement planning.\<newline>''"

definition system_prompt_formatter :: message where
  "system_prompt_formatter = SystemMessage
     ''\<newline>You are a Formatter Assistant.\<newline>You receive raw JSON output from the Planner Agent.\<newline>''"

text \<open>
  \<^verbatim>\<open>prompt_infos[name]["questions"]\<close>, in the order of the source. The descriptions are
  only interpolated into the classification prompt, which is inside \<open>matcher_chain\<close>.
\<close>

definition question :: "string \<Rightarrow> int \<Rightarrow> string \<times> entry" where
  "question field n = (field, \<lparr>collected = False, importance = n\<rparr>)"

definition prompt_infos :: "(string \<times> completion_map) list" where
  "prompt_infos =
     [(''spend'',
        [question ''retirement_age'' 5,
         question ''desired_monthly_spending'' 5,
         question ''large_planned_expenses'' 4,
         question ''travel_frequency'' 3,
         question ''lifestyle_upgrades'' 2]),
      (''leave'',
        [question ''number_of_beneficiaries'' 5,
         question ''beneficiary_relationships'' 4,
         question ''inheritance_goal_amount'' 5,
         question ''estate_distribution_preferences'' 3,
         question ''life_insurance_status'' 2]),
      (''save'',
        [question ''retirement_age'' 4,
         question ''expected_monthly_expenses'' 5,
         question ''risk_tolerance'' 4,
         question ''healthcare_budget'' 5,
         question ''expected_retirement_duration'' 3]),
      (''donate'',
        [question ''charity_names'' 4,
         question ''donation_goal_amount'' 5,
         question ''donation_frequency'' 3,
         question ''donation_timing'' 4,
         question ''legacy_donation_percentage'' 2]),
      (''default'',
        [question ''retirement_age'' 4,
         question ''expected_monthly_expenses'' 5,
         question ''risk_tolerance'' 4,
         question ''healthcare_budget'' 5,
         question ''inheritance_goal_amount'' 3])]"

text \<open>
  The module-level \<^verbatim>\<open>real_profile = {}\<close> (line 173). No function of the module assigns to
  it or updates it: each of them that names \<^verbatim>\<open>real_profile\<close> on the left of an assignment
  binds a local variable.
\<close>

definition module_real_profile :: profile_values where
  "module_real_profile = []"

subsection \<open>The matcher\<close>

text \<open>
  The loop of \<^verbatim>\<open>call_matcher\<close>:
  \<^verbatim>\<open>shadow_profile[field] = {"collected": False, "importance": importance}\<close> for every
  question of the template, on the dictionary the state holds.
\<close>

definition add_questions :: "completion_map \<Rightarrow> completion_map \<Rightarrow> completion_map" where
  "add_questions questions shadow =
     fold (\<lambda>(field, info). AList.update field \<lparr>collected = False, importance = importance info\<rparr>)
       questions shadow"

text \<open>\<^verbatim>\<open>user_goal = real_profile.get("goal", "")\<close>.\<close>

definition user_goal_of :: "profile_values \<Rightarrow> jvalue" where
  "user_goal_of profile = (case map_of profile ''goal'' of None \<Rightarrow> JStr [] | Some g \<Rightarrow> g)"

definition call_matcher :: "env \<Rightarrow> matcher_state \<Rightarrow> exn + matcher_state" where
  "call_matcher E state =
     (let real_profile = m_real_profile state;
          shadow_profile = m_shadow_profile state;
          user_goal = user_goal_of real_profile
      in case matcher_chain E user_goal of
           Inl e \<Rightarrow> Inl e
         | Inr response \<Rightarrow>
             let category0 = lower (strip (content response));
                 category = (if map_of prompt_infos category0 = None then ''default'' else category0)
             in case map_of prompt_infos category of
                  None \<Rightarrow> Inl KeyError
                | Some questions \<Rightarrow>
                    Inr (state\<lparr>selected_template := Some category,
                               m_shadow_profile := add_questions questions shadow_profile\<rparr>))"

text \<open>
  A compiled one-node graph: the node's return value is written back to the state, the
  \<^verbatim>\<open>messages\<close> key through the reducer and every other key by replacement.
\<close>

definition matcher_subgraph :: "env \<Rightarrow> matcher_state \<Rightarrow> exn + matcher_state" where
  "matcher_subgraph E state =
     (case call_matcher E state of
        Inl e \<Rightarrow> Inl e
      | Inr state' \<Rightarrow>
          Inr (state'\<lparr>m_messages := add_messages E (m_messages state) (m_messages state')\<rparr>))"

definition run_matcher :: "env \<Rightarrow> master_state \<Rightarrow> exn + master_state" where
  "run_matcher E master_state =
     (let matcher_data = (matcher master_state)
            \<lparr>m_shadow_profile := shadow_profile master_state,
             m_real_profile := real_profile master_state\<rparr>;
          matcher_state = matcher_data\<lparr>m_messages := []\<rparr>
      in case matcher_subgraph E matcher_state of
           Inl e \<Rightarrow> Inl e
         | Inr matcher_state' \<Rightarrow>
             Inr (master_state\<lparr>matcher := matcher_state',
                               shadow_profile := m_shadow_profile matcher_state'\<rparr>))"

subsection \<open>The extractor\<close>

text \<open>The f-string \<^verbatim>\<open>shadow_system_prompt\<close> with the shadow profile interpolated.\<close>

definition shadow_system_prompt :: "env \<Rightarrow> completion_map \<Rightarrow> string" where
  "shadow_system_prompt E shadow =
     ''\<newline>  Below is a dictionary representing the user's information.\<newline>  Each key corresponds to a data field, and each value indicates whether the information has already been collected:''
     @ str_completion_map E shadow
     @ ''\<newline>\<newline>  Your task is to:\<newline>  1. Examine the conversation history that follows.\<newline>''"

text \<open>The two-message \<^verbatim>\<open>title_prompt\<close> built from \<^verbatim>\<open>real_profile['goal']\<close>.\<close>

definition title_prompt :: "string \<Rightarrow> message list" where
  "title_prompt goal =
     [SystemMessage ''You generate short, clear titles for retirement planning conversations.'',
      HumanMessage (''Create a concise, 3-8 word title summarizing this retirement goal: ''
        @ [CHR 0x27] @ goal @ [CHR 0x27] @ ''.'')]"

text \<open>
  \<^verbatim>\<open>for key in common_keys: shadow_profile[key]["collected"] = True\<close>, where
  \<^verbatim>\<open>common_keys = response_dict.keys() & shadow_profile.keys()\<close>.
\<close>

definition mark_collected :: "string list \<Rightarrow> completion_map \<Rightarrow> completion_map" where
  "mark_collected response_keys shadow =
     map (\<lambda>(key, info). if key \<in> set response_keys then (key, info\<lparr>collected := True\<rparr>) else (key, info))
       shadow"

text \<open>
  \<open>extractor_request\<close> is the list the code stores in \<^verbatim>\<open>state["messages"]\<close> and sends to the
  model: the two system prompts, then the messages of the state.

  \<^verbatim>\<open>call_extractor\<close>. The result \<open>Inr None\<close> is the bare \<^verbatim>\<open>return\<close> on a falsy
  \<^verbatim>\<open>response_dict\<close>; \<^verbatim>\<open>response_dict.keys()\<close> on a value that is not a dictionary raises
  \<^verbatim>\<open>AttributeError\<close>; \<^verbatim>\<open>json.loads\<close> and the two model calls stand outside any
  \<^verbatim>\<open>try\<close>.
\<close>

definition extractor_request :: "env \<Rightarrow> completion_map \<Rightarrow> message list \<Rightarrow> message list" where
  "extractor_request E shadow msgs =
     [system_prompt_extract] @ [SystemMessage (shadow_system_prompt E shadow)] @ msgs"

definition call_extractor :: "env \<Rightarrow> extractor_state \<Rightarrow> exn + extractor_state option" where
  "call_extractor E state =
     (let msgs = extractor_request E (ex_shadow_profile state) (ex_messages state)
      in case model_extractor E msgs of
           Inl e \<Rightarrow> Inl e
         | Inr response \<Rightarrow>
            (case json_loads E (content response) of
               None \<Rightarrow> Inl JSONDecodeError
             | Some response_dict \<Rightarrow>
                (let shadow = ex_shadow_profile state;
                     profile = (case ex_real_profile state of None \<Rightarrow> [] | Some rp \<Rightarrow> rp)
                 in if \<not> truthy response_dict then Inr None
                    else
                     (case response_dict of
                        JDict items \<Rightarrow>
                         (let shadow' = mark_collected (map fst items) shadow;
                              profile' = dict_update profile items;
                              boolValue = list_all (\<lambda>(field, info). collected info) shadow'
                          in if ''goal'' \<in> set (map fst items) then
                               (let goal = content (last msgs);
                                    profile'' = AList.update ''goal'' (JStr goal) profile'
                                in case model_extractor E (title_prompt goal) of
                                     Inl e \<Rightarrow> Inl e
                                   | Inr title_response \<Rightarrow>
                                       Inr (Some (state
                                         \<lparr>ex_messages := msgs,
                                          ex_real_profile := Some profile'',
                                          ex_shadow_profile := shadow',
                                          all_fields_filled := boolValue,
                                          ex_conversation_title := strip (content title_response)\<rparr>)))
                             else
                               Inr (Some (state
                                 \<lparr>ex_messages := msgs,
                                  ex_real_profile := Some profile',
                                  ex_shadow_profile := shadow',
                                  all_fields_filled := boolValue\<rparr>)))
                      | _ \<Rightarrow> Inl AttributeError))))"

definition extractor_subgraph :: "env \<Rightarrow> extractor_state \<Rightarrow> exn + extractor_state" where
  "extractor_subgraph E state =
     (case call_extractor E state of
        Inl e \<Rightarrow> Inl e
      | Inr None \<Rightarrow> Inr state
      | Inr (Some state') \<Rightarrow>
          Inr (state'\<lparr>ex_messages := add_messages E (ex_messages state) (ex_messages state')\<rparr>))"

text \<open>
  \<^verbatim>\<open>[m for m in all_messages if m.type == "human"]\<close> on the master list, which holds
  \<^verbatim>\<open>None\<close> after a turn with an empty user message: reading \<^verbatim>\<open>m.type\<close> of \<^verbatim>\<open>None\<close>
  raises \<^verbatim>\<open>AttributeError\<close>. That is \<^verbatim>\<open>run_extractor\<close> called on such a list; a run of the
  compiled graph refuses the list before this node is reached (see \<open>graph_invoke\<close>).
\<close>

definition human_messages :: "message option list \<Rightarrow> exn + message list" where
  "human_messages all_messages =
     (case those all_messages of
        None \<Rightarrow> Inl AttributeError
      | Some ms \<Rightarrow> Inr (filter (\<lambda>m. mtype m = human) ms))"

text \<open>The last message the chatbot sent to the user, of type \<^verbatim>\<open>ai\<close> or \<^verbatim>\<open>system\<close>.\<close>

definition last_chatbot :: "chatbot_state \<Rightarrow> message" where
  "last_chatbot chatbot_data =
     (let chatbot_messages = filter (\<lambda>m. mtype m = ai \<or> mtype m = system) (cb_messages chatbot_data)
      in if chatbot_messages \<noteq> [] then last chatbot_messages
         else AIMessage ''No Chatbot Messages Found'')"

definition run_extractor :: "env \<Rightarrow> master_state \<Rightarrow> exn + master_state" where
  "run_extractor E master_state =
     (let extractor_data = (extractor master_state)\<lparr>ex_shadow_profile := shadow_profile master_state\<rparr>;
          chatbot_data = chatbot master_state
      in case human_messages (messages master_state) of
           Inl e \<Rightarrow> Inl e
         | Inr hs \<Rightarrow>
            (let last_human = last_slice (last_slice hs);
                 extractor_state = extractor_data
                   \<lparr>ex_messages := [HumanMessage (content (last_chatbot chatbot_data))] @ last_human\<rparr>
             in case extractor_subgraph E extractor_state of
                  Inl e \<Rightarrow> Inl e
                | Inr extractor_state' \<Rightarrow>
                    Inr (master_state
                      \<lparr>extractor := extractor_state',
                       real_profile := (case ex_real_profile extractor_state' of None \<Rightarrow> [] | Some rp \<Rightarrow> rp),
                       shadow_profile := ex_shadow_profile extractor_state',
                       conversation_title := ex_conversation_title extractor_state'\<rparr>)))"

subsection \<open>The interview agent\<close>

definition profile_marker :: string where
  "profile_marker = ''Below is the user's current profile status.''"

text \<open>The f-string \<^verbatim>\<open>profile_prompt\<close>.\<close>

definition profile_prompt :: "env \<Rightarrow> completion_map \<Rightarrow> string \<Rightarrow> string" where
  "profile_prompt E shadow missing_fields_text =
     ''\<newline>    '' @ profile_marker
     @ ''\<newline>    Each field has a 'collected' boolean and an 'importance' score (1.0 = most important):\<newline>\<newline>    ''
     @ str_completion_map E shadow
     @ ''\<newline>\<newline>    Missing fields sorted by importance:\<newline>    ''
     @ missing_fields_text
     @ ''\<newline>\<newline>    ## Your Task:\<newline>''"

text \<open>
  \<^verbatim>\<open>normalize_collected\<close> on the value of a \<^verbatim>\<open>collected\<close> key, which is a boolean in
  every entry: it returns \<^verbatim>\<open>True\<close> only for \<^verbatim>\<open>True\<close>.
\<close>

definition normalize_collected :: "bool \<Rightarrow> bool" where
  "normalize_collected v = (if v = True then True else False)"

definition replace_underscore :: "string \<Rightarrow> string" where
  "replace_underscore s = map (\<lambda>c. if c = CHR ''_'' then CHR '' '' else c) s"

text \<open>
  \<^verbatim>\<open>call_chatbot\<close>. \<^verbatim>\<open>missing_fields.sort(key=lambda x: x[1], reverse=True)\<close> is a stable
  sort on the negated importance.
\<close>

definition call_chatbot :: "env \<Rightarrow> chatbot_state \<Rightarrow> exn + chatbot_state" where
  "call_chatbot E state =
     (let msgs = cb_messages state;
          msgs1 = (if msgs = [] \<or> \<not> (mtype (hd msgs) = system \<and> contains (content (hd msgs)) ''NestWise'')
                   then [system_prompt_chatbot] @ msgs else msgs);
          shadow = (case cb_shadow_profile state of None \<Rightarrow> [] | Some sp \<Rightarrow> sp);
          cleaned = filter (\<lambda>m. \<not> (mtype m = human \<and> contains (content m) profile_marker)) msgs1;
          missing_fields = sort_key (\<lambda>(field, imp). - imp)
            (map (\<lambda>(field, info). (field, importance info))
               (filter (\<lambda>(field, info). \<not> normalize_collected (collected info)) shadow));
          joined = join ''\<newline>''
            (map (\<lambda>(f, imp). ''- '' @ f @ '' (importance: '' @ str_int E imp @ '')'') missing_fields);
          missing_fields_text = (if joined = [] then ''None'' else joined);
          msgs2 = cleaned @ [HumanMessage (profile_prompt E shadow missing_fields_text)]
      in case model_chatbot E msgs2 of
           Inl e \<Rightarrow> Inl e
         | Inr response \<Rightarrow>
            (let reply_text = (if content response \<noteq> [] then content response
                               else str_message E response);
                 reply_text_stripped = lower (strip reply_text)
             in if missing_fields \<noteq> [] \<and> startswith reply_text_stripped ''all necessary info collected''
                then
                  (let top_field = replace_underscore (fst (hd missing_fields));
                       override_text = ''Could you please provide your '' @ top_field @ ''?''
                   in Inr (state\<lparr>cb_messages := msgs2 @ [AIMessage override_text],
                                  cb_shadow_profile := Some shadow\<rparr>))
                else Inr (state\<lparr>cb_messages := msgs2 @ [response],
                               cb_shadow_profile := Some shadow\<rparr>)))"

definition chatbot_subgraph :: "env \<Rightarrow> chatbot_state \<Rightarrow> exn + chatbot_state" where
  "chatbot_subgraph E state =
     (case call_chatbot E state of
        Inl e \<Rightarrow> Inl e
      | Inr state' \<Rightarrow>
          Inr (state'\<lparr>cb_messages := add_messages E (cb_messages state) (cb_messages state')\<rparr>))"

definition run_chatbot :: "env \<Rightarrow> master_state \<Rightarrow> exn + master_state" where
  "run_chatbot E master_state =
     (let chatbot_data = (chatbot master_state)\<lparr>cb_shadow_profile := Some (shadow_profile master_state)\<rparr>
      in case human_messages (messages master_state) of
           Inl e \<Rightarrow> Inl e
         | Inr hs \<Rightarrow>
            (let last_human = last_slice (last_slice hs);
                 chatbot_state = chatbot_data\<lparr>cb_messages := cb_messages chatbot_data @ last_human\<rparr>
             in case chatbot_subgraph E chatbot_state of
                  Inl e \<Rightarrow> Inl e
                | Inr chatbot_state' \<Rightarrow>
                    Inr (master_state
                      \<lparr>chatbot := chatbot_state',
                       shadow_profile :=
                         (case cb_shadow_profile chatbot_state' of None \<Rightarrow> [] | Some sp \<Rightarrow> sp)\<rparr>)))"

definition route_decision_summarize :: "master_state \<Rightarrow> string" where
  "route_decision_summarize state =
     (let summarize_threshold = 20;
          messages_count = length (cb_messages (chatbot state))
      in if messages_count \<ge> summarize_threshold then ''summarizer'' else ''__end__'')"

subsection \<open>The summarizer\<close>

text \<open>\<^verbatim>\<open>call_summarizer\<close> returns \<^verbatim>\<open>{"summary": response.content}\<close>; it calls \<^verbatim>\<open>model_extractor\<close>.\<close>

definition call_summarizer :: "env \<Rightarrow> summarizer_state \<Rightarrow> exn + string" where
  "call_summarizer E state =
     (case model_extractor E ([system_prompt_summarize] @ sm_messages state) of
        Inl e \<Rightarrow> Inl e
      | Inr response \<Rightarrow> Inr (content response))"

definition summarizer_subgraph :: "env \<Rightarrow> summarizer_state \<Rightarrow> exn + summarizer_state" where
  "summarizer_subgraph E state =
     (case call_summarizer E state of
        Inl e \<Rightarrow> Inl e
      | Inr s \<Rightarrow> Inr (state\<lparr>summary := Some s\<rparr>))"

definition run_summarizer :: "env \<Rightarrow> master_state \<Rightarrow> exn + master_state" where
  "run_summarizer E master_state =
     (let summarizer_data = (case summarizer master_state of
                               None \<Rightarrow> \<lparr>sm_messages = [], summary = None\<rparr>
                             | Some d \<Rightarrow> d);
          chatbot_state = chatbot master_state;
          chatbot_messages = cb_messages chatbot_state;
          old_summary = (case summary summarizer_data of None \<Rightarrow> ''None'' | Some t \<Rightarrow> t);
          summarizer_state = summarizer_data
            \<lparr>sm_messages := [HumanMessage (''Last Summary:'' @ old_summary)] @ chatbot_messages\<rparr>
      in case summarizer_subgraph E summarizer_state of
           Inl e \<Rightarrow> Inl e
         | Inr result \<Rightarrow>
            (case summary result of
               None \<Rightarrow> Inl KeyError
             | Some new_summary \<Rightarrow>
                 Inr (master_state
                   \<lparr>summarizer := Some (summarizer_state\<lparr>summary := Some new_summary\<rparr>),
                    chatbot := chatbot_state
                      \<lparr>cb_messages := [system_prompt_chatbot] @ [HumanMessage (''Summary:'' @ new_summary)]
                         @ last_slice chatbot_messages\<rparr>\<rparr>)))"

subsection \<open>State graphs\<close>

text \<open>
  A compiled \<^verbatim>\<open>StateGraph\<close>: \<^verbatim>\<open>add_edge\<close> gives a node its successor (\<open>None\<close> is
  \<^verbatim>\<open>END\<close>), \<^verbatim>\<open>add_conditional_edges\<close> gives it a router and a path map. A node with
  neither ends the run. A run whose step count reaches the recursion limit (25 unless the
  caller configures one, and no caller here does) raises \<^verbatim>\<open>GraphRecursionError\<close>.
  \<open>run_graph\<close> returns the nodes it ran, in order, and the final state or the exception.
\<close>

definition recursion_limit :: nat where
  "recursion_limit = 25"

definition next_node ::
  "('n \<times> 'n option) list \<Rightarrow> ('n \<times> ('s \<Rightarrow> exn + string) \<times> (string \<times> 'n option) list) list
     \<Rightarrow> 'n \<Rightarrow> 's \<Rightarrow> exn + 'n option" where
  "next_node edges conditional_edges n s =
     (case map_of conditional_edges n of
        Some (router, path_map) \<Rightarrow>
          (case router s of
             Inl e \<Rightarrow> Inl e
           | Inr r \<Rightarrow> (case map_of path_map r of None \<Rightarrow> Inl KeyError | Some t \<Rightarrow> Inr t))
      | None \<Rightarrow> (case map_of edges n of Some t \<Rightarrow> Inr t | None \<Rightarrow> Inr None))"

fun run_graph ::
  "nat \<Rightarrow> ('n \<Rightarrow> 's \<Rightarrow> exn + 's) \<Rightarrow> ('n \<Rightarrow> 's \<Rightarrow> exn + 'n option) \<Rightarrow> 'n \<Rightarrow> 's
     \<Rightarrow> 'n list \<times> (exn + 's)" where
  "run_graph 0 node_fn nxt n s = ([], Inl GraphRecursionError)"
| "run_graph (Suc k) node_fn nxt n s =
     (case node_fn n s of
        Inl e \<Rightarrow> ([n], Inl e)
      | Inr s' \<Rightarrow>
         (case nxt n s' of
            Inl e \<Rightarrow> ([n], Inl e)
          | Inr None \<Rightarrow> ([n], Inr s')
          | Inr (Some n') \<Rightarrow>
             (case run_graph k node_fn nxt n' s' of (trace, result) \<Rightarrow> (n # trace, result))))"

subsection \<open>The planner\<close>

text \<open>
  The f-string \<^verbatim>\<open>rag_query\<close> of \<^verbatim>\<open>query_or_respond\<close>. The name \<^verbatim>\<open>real_profile\<close> in it is
  not bound in the function, so it is the module-level dictionary.
\<close>

definition rag_query :: "env \<Rightarrow> string" where
  "rag_query E =
     ''You are a Retrieval Assistant. Given the user's retirement profile below, prepare up to 3 targeted retrieval queries ''
     @ ''User Profile:\<newline>'' @ str_profile_values E module_real_profile @ ''\<newline>\<newline>''"

definition query_or_respond :: "env \<Rightarrow> planner_state \<Rightarrow> exn + message list" where
  "query_or_respond E state =
     (case model_planner_with_tools E ([SystemMessage (rag_query E)] @ pl_messages state) of
        Inl e \<Rightarrow> Inl e
      | Inr response \<Rightarrow> Inr [response])"

text \<open>The tool \<^verbatim>\<open>retrieve\<close>; its content is the serialised snippets.\<close>

definition format_snippet :: "env \<Rightarrow> document \<Rightarrow> string" where
  "format_snippet E doc =
     ''Source: ''
     @ basename (case doc_source doc of None \<Rightarrow> ''Unknown source'' | Some src \<Rightarrow> src)
     @ '', Page: '' @ (case doc_page doc of None \<Rightarrow> ''N/A'' | Some n \<Rightarrow> str_int E n)
     @ ''\<newline>Content:\<newline>'' @ strip (page_content doc)"

definition retrieve :: "env \<Rightarrow> string \<Rightarrow> exn + string" where
  "retrieve E query =
     (case similarity_search E query 3 of
        Inl e \<Rightarrow> Inl e
      | Inr retrieved_docs \<Rightarrow>
          Inr (join ''\<newline>\<newline>---\<newline>\<newline>'' (map (format_snippet E) retrieved_docs)))"

text \<open>
  The f-string \<^verbatim>\<open>system_message_content\<close> of \<^verbatim>\<open>call_planner\<close>, with the profile and the
  retrieved context interpolated (the JSON schema in it is a constant).
\<close>

definition system_message_content :: "env \<Rightarrow> profile_values \<Rightarrow> string \<Rightarrow> string" where
  "system_message_content E profile docs_content =
     ''\<newline>  You are a Retirement Planning Assistant. Your task is to produce a comprehensive, structured retirement plan\<newline>  for a user with profile ''
     @ str_profile_values E profile
     @ '', comparable to a professional financial advisor.\<newline>  Retrieved Context:\<newline>  ''
     @ docs_content
     @ ''\<newline>\<newline>  Instructions:\<newline>''"

text \<open>
  \<^verbatim>\<open>call_planner\<close>. Its \<^verbatim>\<open>flattened_profile\<close> is computed and never used. The tool
  messages are the trailing run of messages of type \<^verbatim>\<open>tool\<close>.
\<close>

definition call_planner :: "env \<Rightarrow> planner_state \<Rightarrow> exn + message list" where
  "call_planner E state =
     (let profile = (case pl_real_profile state of None \<Rightarrow> [] | Some rp \<Rightarrow> rp);
          tool_messages = rev (takeWhile (\<lambda>m. mtype m = tool) (rev (pl_messages state)));
          docs_content = join ''\<newline>\<newline>'' (map content tool_messages)
      in case model_planner E
                ([SystemMessage (system_message_content E profile docs_content)] @ pl_messages state) of
           Inl e \<Rightarrow> Inl e
         | Inr response \<Rightarrow> Inr [response])"

datatype planner_graph_node = query_or_respond_n | tools_n | call_planner_n

text \<open>Each node returns \<^verbatim>\<open>{"messages": [...]}\<close>, which the reducer adds to the state.\<close>

definition planner_node_fn :: "env \<Rightarrow> planner_graph_node \<Rightarrow> planner_state \<Rightarrow> exn + planner_state" where
  "planner_node_fn E n state =
     (case (case n of
              query_or_respond_n \<Rightarrow> query_or_respond E state
            | tools_n \<Rightarrow> ToolNode E (retrieve E) (pl_messages state)
            | call_planner_n \<Rightarrow> call_planner E state) of
        Inl e \<Rightarrow> Inl e
      | Inr new \<Rightarrow> Inr (state\<lparr>pl_messages := add_messages E (pl_messages state) new\<rparr>))"

definition planner_edges :: "(planner_graph_node \<times> planner_graph_node option) list" where
  "planner_edges = [(tools_n, Some call_planner_n), (call_planner_n, None)]"

definition planner_conditional_edges ::
  "env \<Rightarrow> (planner_graph_node \<times> (planner_state \<Rightarrow> exn + string)
      \<times> (string \<times> planner_graph_node option) list) list" where
  "planner_conditional_edges E =
     [(query_or_respond_n,
       (\<lambda>state. tools_condition E (pl_messages state)),
       [(''__end__'', None), (''tools'', Some tools_n)])]"

definition planner_run :: "env \<Rightarrow> planner_state \<Rightarrow> planner_graph_node list \<times> (exn + planner_state)" where
  "planner_run E state =
     run_graph recursion_limit (planner_node_fn E)
       (next_node planner_edges (planner_conditional_edges E)) query_or_respond_n state"

definition planner_subgraph :: "env \<Rightarrow> planner_state \<Rightarrow> exn + planner_state" where
  "planner_subgraph E state = snd (planner_run E state)"

text \<open>
  \<^verbatim>\<open>run_planner\<close> builds the planner's state from \<^verbatim>\<open>master_state.get("planner", {})\<close> alone.
\<close>

definition run_planner :: "env \<Rightarrow> master_state \<Rightarrow> exn + master_state" where
  "run_planner E master_state =
     (let planner_data = (case planner master_state of
                            None \<Rightarrow> \<lparr>pl_messages = [], pl_real_profile = None, pl_shadow_profile = None\<rparr>
                          | Some d \<Rightarrow> d)
      in case planner_subgraph E planner_data of
           Inl e \<Rightarrow> Inl e
         | Inr planner_state \<Rightarrow> Inr (master_state\<lparr>planner := Some planner_state\<rparr>))"

subsection \<open>The master graph\<close>

datatype workflow_node = chatbot_n | extractor_n | matcher_n | planner_n | summarizer_n

text \<open>
  Every node function returns the master state it was given, with its \<^verbatim>\<open>messages\<close> list
  untouched; the reducer merges that list into itself, so the master list stays as it is.
\<close>

definition workflow_node_fn :: "env \<Rightarrow> workflow_node \<Rightarrow> master_state \<Rightarrow> exn + master_state" where
  "workflow_node_fn E n master_state =
     (case n of
        chatbot_n \<Rightarrow> run_chatbot E master_state
      | extractor_n \<Rightarrow> run_extractor E master_state
      | matcher_n \<Rightarrow> run_matcher E master_state
      | planner_n \<Rightarrow> run_planner E master_state
      | summarizer_n \<Rightarrow> run_summarizer E master_state)"

text \<open>
  \<^verbatim>\<open>workflow.add_edge(START, "extractor")\<close> makes the extractor the entry node; the other
  two plain edges are \<^verbatim>\<open>matcher\<close> to \<^verbatim>\<open>chatbot\<close> and \<^verbatim>\<open>planner\<close> to \<^verbatim>\<open>END\<close>.
\<close>

definition workflow_edges :: "(workflow_node \<times> workflow_node option) list" where
  "workflow_edges = [(matcher_n, Some chatbot_n), (planner_n, None)]"

definition workflow_conditional_edges ::
  "(workflow_node \<times> (master_state \<Rightarrow> exn + string) \<times> (string \<times> workflow_node option) list) list" where
  "workflow_conditional_edges =
     [(extractor_n,
       route_decision_extractor,
       [(''matcher'', Some matcher_n), (''planner'', Some planner_n), (''chatbot'', Some chatbot_n)]),
      (chatbot_n,
       (\<lambda>state. Inr (route_decision_summarize state)),
       [(''summarizer'', Some summarizer_n), (''__end__'', None)])]"

definition workflow_run :: "env \<Rightarrow> master_state \<Rightarrow> workflow_node list \<times> (exn + master_state)" where
  "workflow_run E master_state =
     run_graph recursion_limit (workflow_node_fn E)
       (next_node workflow_edges workflow_conditional_edges) extractor_n master_state"

text \<open>
  \<^verbatim>\<open>graph.invoke(state)\<close>. The input is written to the channels before the first node runs,
  and the message reducer refuses a \<^verbatim>\<open>None\<close> in the list of messages with
  \<^verbatim>\<open>NotImplementedError\<close>.
\<close>

definition graph_invoke :: "env \<Rightarrow> master_state \<Rightarrow> exn + master_state" where
  "graph_invoke E master_state =
     (if None \<in> set (messages master_state) then Inl NotImplementedError
      else snd (workflow_run E master_state))"

subsection \<open>The formatter\<close>

definition call_formatter :: "env \<Rightarrow> string \<Rightarrow> exn + string" where
  "call_formatter E raw_json_str =
     (let formatted_json = (case json_loads E raw_json_str of
                              Some parsed \<Rightarrow> json_dumps E parsed
                            | None \<Rightarrow> raw_json_str)
      in case model_formatter E [system_prompt_formatter, HumanMessage formatted_json] of
           Inl e \<Rightarrow> Inl e
         | Inr response \<Rightarrow> Inr (content response))"

subsection \<open>Sessions\<close>

text \<open>
  The module keeps one \<^verbatim>\<open>state\<close> and one \<^verbatim>\<open>prev_assistant_message\<close>, both globals;
  \<^verbatim>\<open>state = None\<close> until \<^verbatim>\<open>start_session\<close> runs.
\<close>

record globals =
  global_state :: "master_state option"
  prev_assistant_message :: "message option"

definition assistant_message :: message where
  "assistant_message = AIMessage ''Hello there, I'm NestWise! How can I help you plan for your retirement?''"

text \<open>
  The \<^verbatim>\<open>MasterState\<close> that \<^verbatim>\<open>start_session\<close> builds. Keys it leaves out and the code
  writes before reading (the sub-agents' \<^verbatim>\<open>messages\<close> and profiles) are empty here.
\<close>

definition initial_state :: master_state where
  "initial_state =
     \<lparr>messages = [],
      chatbot = \<lparr>cb_messages = [system_prompt_chatbot, assistant_message], cb_shadow_profile = None\<rparr>,
      extractor = \<lparr>ex_messages = [], ex_real_profile = None, ex_shadow_profile = [],
                   all_fields_filled = False, ex_conversation_title = ''None''\<rparr>,
      summarizer = None,
      matcher = \<lparr>m_messages = [], m_real_profile = [], m_shadow_profile = [], selected_template = None\<rparr>,
      real_profile = [],
      shadow_profile =
        [(''goal'', \<lparr>collected = False, importance = 5\<rparr>),
         (''age'', \<lparr>collected = False, importance = 2\<rparr>),
         (''salary'', \<lparr>collected = False, importance = 3\<rparr>),
         (''savings'', \<lparr>collected = False, importance = 4\<rparr>),
         (''location'', \<lparr>collected = False, importance = 5\<rparr>)],
      conversation_title = ''initial'',
      planner = None\<rparr>"

text \<open>\<^verbatim>\<open>start_session\<close> assigns the global \<^verbatim>\<open>state\<close> and returns the id it was given.\<close>

definition start_session :: "string \<Rightarrow> globals \<Rightarrow> globals \<times> string" where
  "start_session session_id g = (g\<lparr>global_state := Some initial_state\<rparr>, session_id)"

record chat_response =
  response :: string
  profile_data :: profile_values
  response_title :: string

text \<open>
  \<^verbatim>\<open>profile_data\<close>: every field of the shadow profile with its value in the real profile, or
  \<^verbatim>\<open>False\<close>.
\<close>

definition make_profile_data :: "master_state \<Rightarrow> profile_values" where
  "make_profile_data st =
     map (\<lambda>(field, info). (field, case map_of (real_profile st) field of None \<Rightarrow> JBool False | Some v \<Rightarrow> v))
       (shadow_profile st)"

text \<open>
  \<^verbatim>\<open>chat_step\<close>. \<^verbatim>\<open>state["messages"].append(human_message)\<close> changes the list of the global
  state in place, before \<^verbatim>\<open>graph.invoke\<close>; the assignment \<^verbatim>\<open>state = graph.invoke(state)\<close>
  happens only when the run returns. The result pairs the globals after the call with the
  returned dictionary or the exception that leaves the function.

  Limits of the model. Of a run that raises, the globals record what \<^verbatim>\<open>chat_step\<close> itself
  has written, the appended message. The nodes of the graph work on the dictionaries of the
  global state themselves, so what a node has written in place before the exception (a
  \<^verbatim>\<open>collected\<close> flag, the fields of a template, a profile value, the keys
  \<^verbatim>\<open>run_extractor\<close> and \<^verbatim>\<open>run_matcher\<close> copy into the sub-agent dictionaries) is in the
  global state of the code and not in \<open>global_state\<close> here: after a turn that raises, only the
  list of messages, the conversation title and the previous assistant message are those of
  the code. Two messages are equal when their type, content and tool calls are; the ids that
  the models and the reducer give to messages are left out.
\<close>

definition chat_step :: "env \<Rightarrow> string \<Rightarrow> string \<Rightarrow> globals \<Rightarrow> globals \<times> (exn + chat_response)" where
  "chat_step E user_message session_id g =
     (let human_message = (if user_message \<noteq> [] then Some (HumanMessage user_message) else None)
      in case global_state g of
           None \<Rightarrow> (g, Inl TypeError)
         | Some st \<Rightarrow>
            (let g1 = g\<lparr>global_state := Some (st\<lparr>messages := messages st @ [human_message]\<rparr>)\<rparr>
             in case graph_invoke E (st\<lparr>messages := messages st @ [human_message]\<rparr>) of
                  Inl e \<Rightarrow> (g1, Inl e)
                | Inr st2 \<Rightarrow>
                   (let g2 = g1\<lparr>global_state := Some st2\<rparr>
                    in if cb_messages (chatbot st2) = [] then (g2, Inl IndexError)
                       else
                        (let last_message = last (cb_messages (chatbot st2))
                         in if Some last_message = prev_assistant_message g then
                              (case planner st2 of
                                 None \<Rightarrow> (g2, Inl KeyError)
                               | Some p \<Rightarrow>
                                   if pl_messages p = [] then (g2, Inl IndexError)
                                   else
                                    (case call_formatter E (content (last (pl_messages p))) of
                                       Inl e \<Rightarrow> (g2, Inl e)
                                     | Inr response_text \<Rightarrow>
                                         (g2, Inr \<lparr>response = response_text,
                                                   profile_data = make_profile_data st2,
                                                   response_title = conversation_title st2\<rparr>)))
                            else
                              (g2\<lparr>prev_assistant_message := Some last_message\<rparr>,
                               Inr \<lparr>response = content last_message,
                                    profile_data = make_profile_data st2,
                                    response_title = conversation_title st2\<rparr>)))))"

subsection \<open>The specification's readiness contract\<close>

text \<open>
  The contract of the specification, in its words: the completeness ratio is the sum of the
  importance of the collected fields over the sum of the importance of all fields, and
  critical information is needed when some field of importance 5 is not collected.
\<close>

definition spec_completenessRatio :: "completion_map \<Rightarrow> rat" where
  "spec_completenessRatio m =
     of_int (sum_list (map (\<lambda>(f, e). importance e) (filter (\<lambda>(f, e). collected e) m)))
       / of_int (sum_list (map (\<lambda>(f, e). importance e) m))"

definition spec_needsCritical :: "completion_map \<Rightarrow> bool" where
  "spec_needsCritical m = list_ex (\<lambda>(f, e). importance e = 5 \<and> \<not> collected e) m"

text \<open>
  The shape of the tracked map in a running session: not empty, every importance positive.
\<close>

definition tracked_ok :: "completion_map \<Rightarrow> bool" where
  "tracked_ok shadow = (shadow \<noteq> [] \<and> list_all (\<lambda>(f, e). 0 < importance e) shadow)"

subsection \<open>Example sessions\<close>

text \<open>
  An environment in which every model is unreachable, and the states of a session in which
  the five fields of goal discovery have been collected. The reducer of the examples keeps
  the channel's messages and appends the returned ones that are new.
\<close>

definition example_env :: env where
  "example_env =
     \<lparr>model_chatbot = (\<lambda>msgs. Inl (ModelError ''unavailable'')),
      model_extractor = (\<lambda>msgs. Inl (ModelError ''unavailable'')),
      matcher_chain = (\<lambda>goal. Inl (ModelError ''unavailable'')),
      model_planner_with_tools = (\<lambda>msgs. Inl (ModelError ''unavailable'')),
      model_planner = (\<lambda>msgs. Inl (ModelError ''unavailable'')),
      model_formatter = (\<lambda>msgs. Inl (ModelError ''unavailable'')),
      similarity_search = (\<lambda>query k. Inr []),
      json_loads = (\<lambda>text. None),
      json_dumps = (\<lambda>v. []),
      add_messages = (\<lambda>left right. left @ filter (\<lambda>m. m \<notin> set left) right),
      tools_condition = (\<lambda>msgs. if msgs = [] then Inl KeyError
                           else if tool_calls (last msgs) \<noteq> [] then Inr ''tools'' else Inr ''__end__''),
      ToolNode = (\<lambda>f msgs. Inr (map (\<lambda>q. ToolMessage (case f q of Inl e \<Rightarrow> ''Error'' | Inr c \<Rightarrow> c))
                                   (tool_calls (last msgs)))),
      str_completion_map = (\<lambda>m. ''{'' @ join '', '' (map fst m) @ ''}''),
      str_profile_values = (\<lambda>p. ''{'' @ join '', '' (map fst p) @ ''}''),
      str_int = (\<lambda>n. ''n''),
      str_message = (\<lambda>m. content m)\<rparr>"

definition collected_state :: master_state where
  "collected_state = initial_state
     \<lparr>shadow_profile := map (\<lambda>(f, e). (f, e\<lparr>collected := True\<rparr>)) (shadow_profile initial_state),
      real_profile := [(''goal'', JStr ''I want to retire early and travel''), (''age'', JNum 40),
                       (''salary'', JNum 90000), (''savings'', JNum 250000), (''location'', JStr ''Ohio'')]\<rparr>"

text \<open>The classifier answers \<^verbatim>\<open>Spend\<close>.\<close>

definition spend_env :: env where
  "spend_env = example_env\<lparr>matcher_chain := (\<lambda>goal. Inr (AIMessage ''Spend''))\<rparr>"

definition spend_matcher_state :: matcher_state where
  "spend_matcher_state =
     \<lparr>m_messages = [], m_real_profile = real_profile collected_state,
      m_shadow_profile = shadow_profile collected_state, selected_template = None\<rparr>"

text \<open>
  A session whose extractor answers with a JSON object holding a \<^verbatim>\<open>goal\<close> key and whose
  title model answers with a title that depends on the goal; an extractor that answers with
  prose; the first two turns of that session; an extractor state that already has a title;
  and the globals right after \<^verbatim>\<open>start_session("s1")\<close>.
\<close>

definition goal_json :: string where
  \<open>goal_json = ''{"goal": "retire early"}''\<close>

definition travel_json :: string where
  \<open>travel_json = ''{"goal": "travel"}''\<close>

definition goal_env :: env where
  "goal_env = example_env
     \<lparr>model_extractor := (\<lambda>msgs.
        if startswith (content (hd msgs)) ''You generate'' then
          Inr (AIMessage (if contains (content (last msgs)) ''travel'' then '' Travel The World ''
                          else ''Early Retirement Plan''))
        else if contains (content (last msgs)) ''travel'' then Inr (AIMessage travel_json)
        else Inr (AIMessage goal_json)),
      json_loads := (\<lambda>text. if text = goal_json then Some (JDict [(''goal'', JStr ''retire early'')])
                             else if text = travel_json then Some (JDict [(''goal'', JStr ''travel'')])
                             else None)\<rparr>"

definition unparseable_env :: env where
  "unparseable_env = example_env
     \<lparr>model_extractor := (\<lambda>msgs. Inr (AIMessage ''I could not find any new information.''))\<rparr>"

definition first_turn :: master_state where
  "first_turn = initial_state\<lparr>messages := [Some (HumanMessage ''I want to retire early'')]\<rparr>"

definition second_turn :: master_state where
  "second_turn =
     (case run_extractor goal_env first_turn of
        Inl e \<Rightarrow> first_turn
      | Inr st \<Rightarrow> st\<lparr>messages := messages st @ [Some (HumanMessage ''Now I want to travel instead'')]\<rparr>)"

definition titled_state :: extractor_state where
  "titled_state =
     \<lparr>ex_messages = [HumanMessage ''What is your age?'', HumanMessage ''Now I want to travel instead''],
      ex_real_profile = Some [(''goal'', JStr ''I want to retire early'')],
      ex_shadow_profile = [(''goal'', \<lparr>collected = True, importance = 5\<rparr>),
                           (''age'', \<lparr>collected = False, importance = 2\<rparr>)],
      all_fields_filled = False,
      ex_conversation_title = ''Early Retirement Plan''\<rparr>"

definition started :: globals where
  "started = fst (start_session ''s1'' \<lparr>global_state = None, prev_assistant_message = None\<rparr>)"

text \<open>
  A session with a chatbot that answers; the globals after the first turn of a session
  \<^verbatim>\<open>A\<close>; planner models that answer with the system prompt they were given, the first
  of them asking for one retrieval; a classifier that answers \<^verbatim>\<open>Spend\<close> to the goal
  \<^verbatim>\<open>I want to retire early\<close> and \<^verbatim>\<open>Leave\<close> to any other; an extractor that finds nothing
  new; and a session that has selected the template \<^verbatim>\<open>spend\<close> and collected every tracked
  field.
\<close>

definition chat_env :: env where
  "chat_env = goal_env\<lparr>model_chatbot := (\<lambda>msgs. Inr (AIMessage ''How old are you?''))\<rparr>"

definition session_a :: globals where
  "session_a = fst (chat_step chat_env ''I want to retire early'' ''A''
                     (fst (start_session ''A'' \<lparr>global_state = None, prev_assistant_message = None\<rparr>)))"

definition echo_env :: env where
  "echo_env = example_env
     \<lparr>model_planner_with_tools := (\<lambda>msgs. Inr (Message ai (content (hd msgs)) [''contribution limits''])),
      model_planner := (\<lambda>msgs. Inr (AIMessage (content (hd msgs))))\<rparr>"

definition classifier_env :: env where
  "classifier_env = goal_env
     \<lparr>matcher_chain := (\<lambda>goal. if goal = JStr ''I want to retire early'' then Inr (AIMessage '' Spend '')
                               else Inr (AIMessage ''Leave''))\<rparr>"

definition idle_env :: env where
  "idle_env = example_env
     \<lparr>model_extractor := (\<lambda>msgs. Inr (AIMessage ''{}'')),
      json_loads := (\<lambda>text. if text = ''{}'' then Some (JDict []) else None),
      model_chatbot := (\<lambda>msgs. Inr (AIMessage ''Where do you live?''))\<rparr>"

definition ready_state :: master_state where
  "ready_state = collected_state
     \<lparr>matcher := (matcher collected_state)\<lparr>selected_template := Some ''spend''\<rparr>,
      shadow_profile := map (\<lambda>(f, e). (f, e\<lparr>collected := True\<rparr>))
        (add_questions
           [question ''retirement_age'' 5, question ''desired_monthly_spending'' 5,
            question ''large_planned_expenses'' 4, question ''travel_frequency'' 3,
            question ''lifestyle_upgrades'' 2]
           (shadow_profile collected_state)),
      real_profile := real_profile collected_state
        @ [(''retirement_age'', JNum 60), (''desired_monthly_spending'', JNum 4000),
           (''large_planned_expenses'', JStr ''a boat''), (''travel_frequency'', JStr ''twice a year''),
           (''lifestyle_upgrades'', JStr ''none'')]\<rparr>"

subsection \<open>Paths of the graphs\<close>

text \<open>
  The targets the graph builder gives a node: the values of its path map, or the target of
  its plain edge, or \<^verbatim>\<open>END\<close> (\<open>None\<close>) when it has neither.
\<close>

definition successors ::
  "('n \<times> 'n option) list \<Rightarrow> ('n \<times> ('s \<Rightarrow> exn + string) \<times> (string \<times> 'n option) list) list
     \<Rightarrow> 'n \<Rightarrow> 'n option list" where
  "successors edges conditional_edges n =
     (case map_of conditional_edges n of
        Some (router, path_map) \<Rightarrow> map snd path_map
      | None \<Rightarrow> (case map_of edges n of Some t \<Rightarrow> [t] | None \<Rightarrow> [None]))"

abbreviation wf_next :: "workflow_node \<Rightarrow> master_state \<Rightarrow> exn + workflow_node option" where
  "wf_next \<equiv> next_node workflow_edges workflow_conditional_edges"

abbreviation pl_next :: "env \<Rightarrow> planner_graph_node \<Rightarrow> planner_state \<Rightarrow> exn + planner_graph_node option" where
  "pl_next E \<equiv> next_node planner_edges (planner_conditional_edges E)"

text \<open>
  The bound of the specification on one turn, extract, then optionally match, then interview
  or plan, then optionally summarize, as the lists of nodes a run may execute (a run that
  raises stops at the node that raised); and the bound on one planner invocation: one query,
  at most one retrieval, at most one synthesis.
\<close>

definition workflow_traces :: "workflow_node list list" where
  "workflow_traces =
     [[extractor_n],
      [extractor_n, matcher_n],
      [extractor_n, matcher_n, chatbot_n],
      [extractor_n, matcher_n, chatbot_n, summarizer_n],
      [extractor_n, planner_n],
      [extractor_n, chatbot_n],
      [extractor_n, chatbot_n, summarizer_n]]"

definition planner_traces :: "planner_graph_node list list" where
  "planner_traces =
     [[query_or_respond_n],
      [query_or_respond_n, tools_n],
      [query_or_respond_n, tools_n, call_planner_n]]"

section \<open>Properties\<close>

subsection \<open>Rounding\<close>

lemma pow2_pos: "0 < pow2 k"
  by (simp add: pow2_def)

lemma round_half_even_le: "x \<le> of_int k \<Longrightarrow> round_half_even x \<le> k"
proof -
  assume a: "x \<le> of_int k"
  then have f: "\<lfloor>x\<rfloor> \<le> k" by (simp add: floor_le_iff)
  show ?thesis
  proof (cases "\<lfloor>x\<rfloor> = k")
    case True
    then have "x = of_int k" using a of_int_floor_le [of x] by linarith
    then show ?thesis by (simp add: round_half_even_def)
  next
    case False
    then have "\<lfloor>x\<rfloor> + 1 \<le> k" using f by simp
    then show ?thesis by (simp add: round_half_even_def Let_def)
  qed
qed

lemma round_half_even_ge: "of_int k \<le> x \<Longrightarrow> k \<le> round_half_even x"
proof -
  assume "of_int k \<le> x"
  then have "k \<le> \<lfloor>x\<rfloor>" by (simp add: le_floor_iff)
  then show ?thesis by (simp add: round_half_even_def Let_def)
qed

lemma round_half_even_err: "\<bar>of_int (round_half_even x) - x\<bar> \<le> 1 / 2"
proof -
  have "of_int \<lfloor>x\<rfloor> \<le> x" "x < of_int \<lfloor>x\<rfloor> + 1" by linarith+
  then show ?thesis by (auto simp add: round_half_even_def Let_def)
qed

lemma binary_exponent_neg:
  assumes "0 < q" and "q < 1"
  shows "binary_exponent q \<le> - 1"
proof -
  obtain n d where nd: "quotient_of q = (n, d)" by (cases "quotient_of q")
  have d: "0 < d" using nd by (rule quotient_of_denom_pos)
  have q: "q = of_int n / of_int d" using nd by (rule quotient_of_div)
  have n: "0 < n" using assms(1) d q by (simp add: zero_less_divide_iff)
  have "n < d" using assms(2) d q by (simp add: divide_less_eq)
  then have "nat n \<le> nat d" by simp
  then have "bitlen n \<le> bitlen d" unfolding bitlen_def by (simp add: floorlog_mono)
  then have e0: "bitlen n - bitlen d \<le> 0" by simp
  show ?thesis
  proof (cases "pow2 (bitlen n - bitlen d) \<le> q")
    case True
    then have "pow2 (bitlen n - bitlen d) < 1" using assms(2) by simp
    moreover have "1 \<le> pow2 (bitlen n - bitlen d)" if "0 \<le> bitlen n - bitlen d"
      using that by (simp add: pow2_def)
    ultimately have "bitlen n - bitlen d < 0" by (meson not_le)
    then show ?thesis using True nd by (simp add: binary_exponent_def)
  next
    case False
    then show ?thesis using e0 nd by (simp add: binary_exponent_def)
  qed
qed

text \<open>Below 1 the doubles are multiples of \<open>1 / 2 ^ k\<close> for some \<open>k\<close> from 53 on.\<close>

lemma round_double_scaled:
  assumes "0 < q" and "q < 1"
  obtains k :: nat where "53 \<le> k"
    and "round_double q = of_int (round_half_even (q * 2 ^ k)) / 2 ^ k"
proof -
  define p where "p = max (binary_exponent q - 52) (- 1074)"
  have "binary_exponent q \<le> - 1" using assms by (simp add: binary_exponent_neg)
  then have p: "p \<le> - 53" by (simp add: p_def)
  then have k: "53 \<le> nat (- p)" by simp
  have "pow2 p = 1 / 2 ^ nat (- p)" using p by (simp add: pow2_def)
  then have "round_double q = of_int (round_half_even (q * 2 ^ nat (- p))) / 2 ^ nat (- p)"
    using assms(1) by (simp add: round_double_def Let_def p_def [symmetric])
  then show ?thesis using k that by blast
qed

lemma round_double_0: "round_double 0 = 0"
  by (simp add: round_double_def)

lemma round_double_1: "round_double 1 = 1"
  by code_simp

lemma round_double_unit:
  assumes "0 \<le> q" and "q \<le> 1"
  shows "0 \<le> round_double q \<and> round_double q \<le> 1 \<and> \<bar>round_double q - q\<bar> \<le> 1 / 2 ^ 54"
proof -
  consider "q = 0" | "q = 1" | "0 < q" "q < 1" using assms by fastforce
  then show ?thesis
  proof cases
    case 1
    then show ?thesis by (simp add: round_double_0)
  next
    case 2
    then show ?thesis by (simp add: round_double_1)
  next
    case 3
    then obtain k :: nat where k: "53 \<le> k"
      and r: "round_double q = of_int (round_half_even (q * 2 ^ k)) / 2 ^ k"
      by (rule round_double_scaled)
    have "of_int 0 \<le> q * 2 ^ k" using 3 by simp
    then have lo: "0 \<le> round_half_even (q * 2 ^ k)" by (rule round_half_even_ge)
    have "q * 2 ^ k \<le> of_int (2 ^ k)" using 3 by simp
    then have hi: "round_half_even (q * 2 ^ k) \<le> 2 ^ k" by (rule round_half_even_le)
    have a: "0 \<le> round_double q" using lo r by simp
    have "(of_int (round_half_even (q * 2 ^ k)) :: rat) \<le> of_int (2 ^ k)"
      using hi by (simp only: of_int_le_iff)
    then have b: "round_double q \<le> 1" using r by (simp add: divide_le_eq)
    have "round_double q - q = (of_int (round_half_even (q * 2 ^ k)) - q * 2 ^ k) / 2 ^ k"
      using r by (simp add: diff_divide_distrib)
    then have "\<bar>round_double q - q\<bar> = \<bar>of_int (round_half_even (q * 2 ^ k)) - q * 2 ^ k\<bar> / 2 ^ k"
      by simp
    also have "\<dots> \<le> (1 / 2) / 2 ^ k"
      using round_half_even_err [of "q * 2 ^ k"] by (intro divide_right_mono) simp_all
    also have "\<dots> = 1 / 2 ^ Suc k" by simp
    also have "\<dots> \<le> 1 / 2 ^ 54"
    proof -
      have "(2::rat) ^ 54 \<le> 2 ^ Suc k" using k by (intro power_increasing) simp_all
      then show ?thesis by (simp only: frac_le zero_less_power zero_less_numeral zero_le_one order_refl)
    qed
    finally show ?thesis using a b by simp
  qed
qed

text \<open>
  A quotient of two integers below 1 stays below 1 when the divisor is less than \<open>2 ^ 53\<close>:
  it is at most \<open>1 - 1 / b\<close>, and the doubles up to 1 are \<open>1 / 2 ^ 53\<close> apart or closer.
\<close>

lemma round_double_below_1:
  assumes "0 \<le> a" and "a < b" and "b < 2 ^ 53"
  shows "round_double (of_int a / of_int b) < 1"
proof (cases "a = 0")
  case True
  then show ?thesis by (simp add: round_double_0)
next
  case False
  define q :: rat where "q = of_int a / of_int b"
  have b: "0 < b" using assms by simp
  have q: "0 < q" "q < 1" using assms False b by (simp_all add: q_def)
  then obtain k :: nat where k: "53 \<le> k"
    and r: "round_double q = of_int (round_half_even (q * 2 ^ k)) / 2 ^ k"
    by (rule round_double_scaled)
  have "(2::int) ^ 53 \<le> 2 ^ k" using k by (intro power_increasing) simp_all
  then have bk: "b < 2 ^ k" using assms(3) by simp
  have "a + 1 \<le> b" using assms(2) by simp
  then have "(of_int a :: rat) \<le> of_int b - 1" by (metis of_int_le_iff of_int_add of_int_1 le_diff_eq)
  then have "q \<le> (of_int b - 1) / of_int b" using b by (simp add: q_def divide_right_mono)
  also have "\<dots> = 1 - 1 / of_int b" using b by (simp add: diff_divide_distrib)
  finally have "q \<le> 1 - 1 / of_int b" .
  then have "q * 2 ^ k \<le> (1 - 1 / of_int b) * 2 ^ k" by (simp add: mult_right_mono)
  also have "\<dots> = 2 ^ k - 2 ^ k / of_int b" by (simp add: algebra_simps)
  also have "\<dots> \<le> 2 ^ k - 1"
  proof -
    have "(of_int b :: rat) \<le> of_int (2 ^ k)" using bk by (simp only: of_int_le_iff)
    then have "(1::rat) \<le> 2 ^ k / of_int b" using b by (simp add: le_divide_eq)
    then show ?thesis by simp
  qed
  finally have "q * 2 ^ k \<le> of_int (2 ^ k - 1)" by simp
  then have "round_half_even (q * 2 ^ k) \<le> 2 ^ k - 1" by (rule round_half_even_le)
  then have "round_half_even (q * 2 ^ k) < 2 ^ k" by simp
  then have "(of_int (round_half_even (q * 2 ^ k)) :: rat) < of_int (2 ^ k)"
    by (simp only: of_int_less_iff)
  then have "(of_int (round_half_even (q * 2 ^ k)) :: rat) < 2 ^ k" by simp
  then have "round_double q < 1" using r by (simp add: divide_less_eq)
  then show ?thesis by (simp add: q_def)
qed

lemma truediv_unit:
  assumes "0 \<le> a" and "a \<le> b" and "0 < b"
  shows "truediv a b = Inr (round_double (of_int a / of_int b))"
proof -
  have "0 \<le> (of_int a / of_int b :: rat)" "(of_int a / of_int b :: rat) \<le> 1"
    using assms by (simp_all add: divide_le_eq)
  then have "0 \<le> round_double (of_int a / of_int b)" "round_double (of_int a / of_int b) \<le> 1"
    using round_double_unit by blast+
  moreover have "(1::rat) < pow2 1024" by (simp add: pow2_def)
  ultimately show ?thesis using assms(3) by (simp add: truediv_def Let_def)
qed

lemma truediv_raises:
  "truediv a b = Inl e \<Longrightarrow> e = ZeroDivisionError \<or> e = OverflowError"
  by (auto simp add: truediv_def Let_def split: if_splits)

lemma truediv_zero: "truediv a b = Inl ZeroDivisionError \<longleftrightarrow> b = 0"
  by (auto simp add: truediv_def Let_def split: if_splits)

subsection \<open>Readiness and routing\<close>

lemma route_loop_sums:
  "route_loop p (a, b, c) =
     (a + sum_list (map (\<lambda>(f, e). importance e) p),
      b + sum_list (map (\<lambda>(f, e). importance e) (filter (\<lambda>(f, e). collected e) p)),
      c \<or> list_ex (\<lambda>(f, e). importance e = 5 \<and> \<not> collected e) p)"
  by (induction p arbitrary: a b c) (auto simp: MAXRATING_def)

lemma filled_le_total:
  "\<forall>(f, e) \<in> set p. 0 \<le> importance e \<Longrightarrow>
     0 \<le> sum_list (map (\<lambda>(f, e). importance e) (filter (\<lambda>(f, e). collected e) p)) \<and>
     sum_list (map (\<lambda>(f, e). importance e) (filter (\<lambda>(f, e). collected e) p))
       \<le> sum_list (map (\<lambda>(f, e). importance e) p)"
  by (induction p) auto

lemma total_pos:
  "p \<noteq> [] \<Longrightarrow> \<forall>(f, e) \<in> set p. 0 < importance e \<Longrightarrow>
     0 < sum_list (map (\<lambda>(f, e). importance e) p)"
proof (induction p)
  case Nil
  then show ?case by simp
next
  case (Cons x p)
  then show ?case
    by (cases "p = []") (auto simp: add_pos_pos)
qed

lemma total_nonneg:
  "\<forall>(f, e) \<in> set p. 0 \<le> importance e \<Longrightarrow> 0 \<le> sum_list (map (\<lambda>(f, e). importance e) p)"
  by (induction p) auto

lemma current_completeness_sums:
  "current_completeness p =
     (case truediv (sum_list (map (\<lambda>(f, e). importance e) (filter (\<lambda>(f, e). collected e) p)))
                   (sum_list (map (\<lambda>(f, e). importance e) p)) of
        Inl e \<Rightarrow> Inl e
      | Inr q \<Rightarrow> Inr (q, list_ex (\<lambda>(f, e). importance e = 5 \<and> \<not> collected e) p))"
  by (simp add: current_completeness_def route_loop_sums)

lemma current_completeness_nonneg:
  assumes "\<forall>(f, e) \<in> set p. 0 \<le> importance e"
      and "sum_list (map (\<lambda>(f, e). importance e) p) \<noteq> 0"
  shows "current_completeness p = Inr (round_double (spec_completenessRatio p), spec_needsCritical p)"
proof -
  have "0 < sum_list (map (\<lambda>(f, e). importance e) p)"
    using total_nonneg [OF assms(1)] assms(2) by simp
  then show ?thesis
    using filled_le_total [OF assms(1)]
    by (simp add: current_completeness_sums truediv_unit spec_completenessRatio_def
        spec_needsCritical_def)
qed

lemma critical_not_ready:
  "spec_needsCritical (shadow_profile state) \<Longrightarrow>
     route_decision_extractor state \<noteq> Inr ''matcher'' \<and> route_decision_extractor state \<noteq> Inr ''planner''"
  by (auto simp add: route_decision_extractor_def current_completeness_sums spec_needsCritical_def
      Let_def split: sum.splits)

text \<open>
  C1. On every non-empty completion map whose importances are positive (the data model has
  them in 1..5) and sum to less than \<open>2 ^ 53\<close>, the routing computes the critical flag of the
  contract and, as the completeness ratio, the double nearest to the quotient of the
  contract; the quotient and the double lie in [0,1], are no more than \<open>1 / 2 ^ 54\<close> apart, and
  one is at least 1 exactly when the other is; the turn goes to the planner (to the matcher
  when no template is selected) exactly when the ratio is at least 1 and no critical field
  is missing, and to the chatbot otherwise. On every completion map, a missing field of
  importance 5 keeps the turn from the matcher and the planner.
\<close>

theorem route_decision_extractor_readiness:
  "(shadow_profile state \<noteq> []
      \<and> (\<forall>(f, e) \<in> set (shadow_profile state). 0 < importance e)
      \<and> sum_list (map (\<lambda>(f, e). importance e) (shadow_profile state)) < 2 ^ 53 \<longrightarrow>
      current_completeness (shadow_profile state) =
          Inr (round_double (spec_completenessRatio (shadow_profile state)),
               spec_needsCritical (shadow_profile state))
      \<and> 0 \<le> spec_completenessRatio (shadow_profile state)
      \<and> spec_completenessRatio (shadow_profile state) \<le> 1
      \<and> 0 \<le> round_double (spec_completenessRatio (shadow_profile state))
      \<and> round_double (spec_completenessRatio (shadow_profile state)) \<le> 1
      \<and> \<bar>round_double (spec_completenessRatio (shadow_profile state))
           - spec_completenessRatio (shadow_profile state)\<bar> \<le> 1 / 2 ^ 54
      \<and> (1 \<le> round_double (spec_completenessRatio (shadow_profile state))
           \<longleftrightarrow> 1 \<le> spec_completenessRatio (shadow_profile state))
      \<and> route_decision_extractor state =
          Inr (if spec_completenessRatio (shadow_profile state) \<ge> 1
                  \<and> \<not> spec_needsCritical (shadow_profile state)
               then (if no_template (selected_template (matcher state)) then ''matcher'' else ''planner'')
               else ''chatbot''))
   \<and> (spec_needsCritical (shadow_profile state) \<longrightarrow>
        route_decision_extractor state \<noteq> Inr ''matcher''
        \<and> route_decision_extractor state \<noteq> Inr ''planner'')"
proof (intro conjI impI)
  let ?p = "shadow_profile state"
  let ?tot = "sum_list (map (\<lambda>(f, e). importance e) ?p)"
  let ?fil = "sum_list (map (\<lambda>(f, e). importance e) (filter (\<lambda>(f, e). collected e) ?p))"
  assume h: "?p \<noteq> [] \<and> (\<forall>(f, e) \<in> set ?p. 0 < importance e) \<and> ?tot < 2 ^ 53"
  then have nn: "\<forall>(f, e) \<in> set ?p. 0 \<le> importance e" by fastforce
  have pos: "0 < ?tot" using h by (simp add: total_pos)
  have le: "0 \<le> ?fil" "?fil \<le> ?tot" using filled_le_total [OF nn] by auto
  show cc: "current_completeness ?p = Inr (round_double (spec_completenessRatio ?p), spec_needsCritical ?p)"
    using nn pos by (simp add: current_completeness_nonneg)
  show r0: "0 \<le> spec_completenessRatio ?p"
    unfolding spec_completenessRatio_def using pos le by simp
  show r1: "spec_completenessRatio ?p \<le> 1"
    unfolding spec_completenessRatio_def using pos le by simp
  show "0 \<le> round_double (spec_completenessRatio ?p)"
    using round_double_unit [OF r0 r1] by simp
  show "round_double (spec_completenessRatio ?p) \<le> 1"
    using round_double_unit [OF r0 r1] by simp
  show "\<bar>round_double (spec_completenessRatio ?p) - spec_completenessRatio ?p\<bar> \<le> 1 / 2 ^ 54"
    using round_double_unit [OF r0 r1] by simp
  show iff: "1 \<le> round_double (spec_completenessRatio ?p) \<longleftrightarrow> 1 \<le> spec_completenessRatio ?p"
  proof (cases "?fil = ?tot")
    case True
    then show ?thesis using pos by (simp add: spec_completenessRatio_def round_double_1)
  next
    case False
    then have lt: "?fil < ?tot" using le by simp
    then have "round_double (of_int ?fil / of_int ?tot) < 1"
      using le(1) h by (intro round_double_below_1) simp_all
    moreover have "(of_int ?fil / of_int ?tot :: rat) < 1" using lt pos by simp
    ultimately show ?thesis by (simp add: spec_completenessRatio_def)
  qed
  show "route_decision_extractor state =
          Inr (if spec_completenessRatio ?p \<ge> 1 \<and> \<not> spec_needsCritical ?p
               then (if no_template (selected_template (matcher state)) then ''matcher'' else ''planner'')
               else ''chatbot'')"
    using iff by (simp add: route_decision_extractor_def cc COMPLETENESSRATIO_def)
next
  assume "spec_needsCritical (shadow_profile state)"
  then show "route_decision_extractor state \<noteq> Inr ''matcher''"
    by (simp add: critical_not_ready)
next
  assume "spec_needsCritical (shadow_profile state)"
  then show "route_decision_extractor state \<noteq> Inr ''planner''"
    by (simp add: critical_not_ready)
qed

theorem route_decision_extractor_readiness_witness:
  "current_completeness
     [(''goal'', \<lparr>collected = True, importance = 5\<rparr>), (''age'', \<lparr>collected = False, importance = 2\<rparr>)]
     = Inr (6433713753386423 / 9007199254740992, False)
   \<and> route_decision_extractor (initial_state
        \<lparr>shadow_profile := [(''goal'', \<lparr>collected = True, importance = 5\<rparr>),
                             (''age'', \<lparr>collected = False, importance = 2\<rparr>)]\<rparr>) = Inr ''chatbot''
   \<and> route_decision_extractor collected_state = Inr ''matcher''
   \<and> route_decision_extractor ready_state = Inr ''planner''
   \<and> spec_needsCritical (shadow_profile initial_state)
   \<and> route_decision_extractor initial_state = Inr ''chatbot''"
proof -
  let ?partial = "initial_state
        \<lparr>shadow_profile := [(''goal'', \<lparr>collected = True, importance = 5\<rparr>),
                             (''age'', \<lparr>collected = False, importance = 2\<rparr>)]\<rparr>"
  have v: "round_double (5 / 7) = 6433713753386423 / 9007199254740992"
    by code_simp
  have 1: "current_completeness (shadow_profile ?partial) = Inr (6433713753386423 / 9007199254740992, False)
         \<and> route_decision_extractor ?partial = Inr ''chatbot''"
    using route_decision_extractor_readiness [of ?partial] v
    by (simp add: spec_completenessRatio_def spec_needsCritical_def)
  have 2: "route_decision_extractor collected_state = Inr ''matcher''"
    using route_decision_extractor_readiness [of collected_state]
    by (simp add: spec_completenessRatio_def spec_needsCritical_def collected_state_def
        initial_state_def no_template_def)
  have h3: "shadow_profile ready_state \<noteq> []
      \<and> (\<forall>(f, e) \<in> set (shadow_profile ready_state). 0 < importance e)
      \<and> sum_list (map (\<lambda>(f, e). importance e) (shadow_profile ready_state)) < 2 ^ 53"
    by code_simp
  have c3: "spec_completenessRatio (shadow_profile ready_state) \<ge> 1
      \<and> \<not> spec_needsCritical (shadow_profile ready_state)
      \<and> \<not> no_template (selected_template (matcher ready_state))"
    by code_simp
  have 3: "route_decision_extractor ready_state = Inr ''planner''"
    using route_decision_extractor_readiness [of ready_state] h3 c3 by simp
  have 4: "spec_needsCritical (shadow_profile initial_state)
         \<and> route_decision_extractor initial_state = Inr ''chatbot''"
    using route_decision_extractor_readiness [of initial_state]
    by (simp add: spec_completenessRatio_def spec_needsCritical_def initial_state_def)
  from 1 2 3 4 show ?thesis by simp
qed

text \<open>
  C8 as stated fails: on the empty completion map the loop leaves both sums at 0 and the flag
  false, and the unguarded division raises.
\<close>

theorem route_decision_extractor_empty_counterexample:
  "route_loop [] (0, 0, False) = (0, 0, False)
   \<and> current_completeness [] = Inl ZeroDivisionError
   \<and> route_decision_extractor (initial_state\<lparr>shadow_profile := []\<rparr>) = Inl ZeroDivisionError"
  by (simp add: current_completeness_def route_decision_extractor_def truediv_def)

text \<open>
  Every node of the master graph that returns, and so every run of the graph that returns,
  keeps the tracked map non-empty with positive importances.
\<close>

lemma tracked_ok_mark_collected:
  "tracked_ok shadow \<Longrightarrow> tracked_ok (mark_collected ks shadow)"
  by (auto simp: tracked_ok_def mark_collected_def list_all_iff split: if_splits)

lemma set_update_subset: "set (AList.update k v al) \<subseteq> insert (k, v) (set al)"
  by (induction al) auto

lemma update_not_Nil: "AList.update k v al \<noteq> []"
  by (cases al) auto

lemma tracked_ok_update:
  "0 < importance v \<Longrightarrow> list_all (\<lambda>(f, e). 0 < importance e) al \<Longrightarrow>
     tracked_ok (AList.update k v al)"
  using set_update_subset [of k v al]
  by (auto simp: tracked_ok_def list_all_iff update_not_Nil)

lemma tracked_ok_add_questions:
  "tracked_ok shadow \<Longrightarrow> \<forall>(f, q) \<in> set qs. 0 < importance q \<Longrightarrow>
     tracked_ok (add_questions qs shadow)"
proof (induction qs arbitrary: shadow)
  case Nil
  then show ?case by (simp add: add_questions_def)
next
  case (Cons a qs)
  obtain f q where a: "a = (f, q)" by (cases a)
  have "tracked_ok (AList.update f \<lparr>collected = False, importance = importance q\<rparr> shadow)"
    using Cons.prems a by (intro tracked_ok_update) (auto simp: tracked_ok_def)
  then show ?case
    using Cons.prems Cons.IH by (simp add: a add_questions_def)
qed

lemma prompt_infos_positive:
  "map_of prompt_infos c = Some qs \<Longrightarrow> \<forall>(f, q) \<in> set qs. 0 < importance q"
  by (auto simp: prompt_infos_def question_def split: if_splits)

lemma call_extractor_tracked:
  "call_extractor E st = Inr (Some st') \<Longrightarrow> tracked_ok (ex_shadow_profile st) \<Longrightarrow>
     tracked_ok (ex_shadow_profile st')"
  unfolding call_extractor_def Let_def
  by (auto simp: tracked_ok_mark_collected
      split: sum.splits option.splits if_splits jvalue.splits)

lemma extractor_subgraph_tracked:
  "extractor_subgraph E st = Inr st' \<Longrightarrow> tracked_ok (ex_shadow_profile st) \<Longrightarrow>
     tracked_ok (ex_shadow_profile st')"
  by (auto simp: extractor_subgraph_def split: sum.splits option.splits
      dest: call_extractor_tracked)

lemma run_extractor_tracked:
  "run_extractor E S = Inr S' \<Longrightarrow> tracked_ok (shadow_profile S) \<Longrightarrow> tracked_ok (shadow_profile S')"
  by (auto simp: run_extractor_def Let_def split: sum.splits
      dest!: extractor_subgraph_tracked)

lemma call_matcher_tracked:
  "call_matcher E st = Inr st' \<Longrightarrow> tracked_ok (m_shadow_profile st) \<Longrightarrow>
     tracked_ok (m_shadow_profile st')"
  by (auto simp: call_matcher_def Let_def
      intro!: tracked_ok_add_questions prompt_infos_positive
      split: sum.splits option.splits)

lemma run_matcher_tracked:
  "run_matcher E S = Inr S' \<Longrightarrow> tracked_ok (shadow_profile S) \<Longrightarrow> tracked_ok (shadow_profile S')"
  by (auto simp: run_matcher_def matcher_subgraph_def Let_def split: sum.splits
      dest!: call_matcher_tracked)

lemma call_chatbot_shadow:
  "call_chatbot E st = Inr st' \<Longrightarrow> cb_shadow_profile st = Some sp \<Longrightarrow> cb_shadow_profile st' = Some sp"
  unfolding call_chatbot_def Let_def
  by (auto split: sum.splits if_splits)

lemma run_chatbot_tracked:
  "run_chatbot E S = Inr S' \<Longrightarrow> tracked_ok (shadow_profile S) \<Longrightarrow> tracked_ok (shadow_profile S')"
  by (auto simp: run_chatbot_def chatbot_subgraph_def Let_def split: sum.splits
      dest!: call_chatbot_shadow)

lemma run_summarizer_tracked:
  "run_summarizer E S = Inr S' \<Longrightarrow> tracked_ok (shadow_profile S) \<Longrightarrow> tracked_ok (shadow_profile S')"
  by (auto simp: run_summarizer_def Let_def split: sum.splits option.splits)

lemma run_planner_tracked:
  "run_planner E S = Inr S' \<Longrightarrow> tracked_ok (shadow_profile S) \<Longrightarrow> tracked_ok (shadow_profile S')"
  by (auto simp: run_planner_def Let_def split: sum.splits option.splits)

lemma workflow_node_fn_tracked:
  "workflow_node_fn E n S = Inr S' \<Longrightarrow> tracked_ok (shadow_profile S) \<Longrightarrow> tracked_ok (shadow_profile S')"
  by (cases n)
     (auto simp: workflow_node_fn_def
       dest: run_extractor_tracked run_matcher_tracked run_chatbot_tracked run_summarizer_tracked
             run_planner_tracked)

lemma run_graph_invariant:
  assumes "\<And>n s s'. f n s = Inr s' \<Longrightarrow> I s \<Longrightarrow> I s'"
  shows "snd (run_graph k f nx n s) = Inr s' \<Longrightarrow> I s \<Longrightarrow> I s'"
proof (induction k arbitrary: n s)
  case 0
  then show ?case by simp
next
  case (Suc k)
  show ?case
  proof (cases "f n s")
    case (Inl e)
    with Suc.prems show ?thesis by simp
  next
    case (Inr s1)
    with assms Suc.prems have i: "I s1" by blast
    show ?thesis
    proof (cases "nx n s1")
      case (Inl e)
      with Inr Suc.prems show ?thesis by simp
    next
      case nx: (Inr t)
      show ?thesis
      proof (cases t)
        case None
        with Inr nx Suc.prems i show ?thesis by simp
      next
        case (Some n')
        with Inr nx Suc.prems have "snd (run_graph k f nx n' s1) = Inr s'"
          by (simp split: prod.splits)
        then show ?thesis using i by (rule Suc.IH)
      qed
    qed
  qed
qed

lemma workflow_run_tracked:
  "snd (workflow_run E S) = Inr S' \<Longrightarrow> tracked_ok (shadow_profile S) \<Longrightarrow> tracked_ok (shadow_profile S')"
  unfolding workflow_run_def
  by (rule run_graph_invariant [where I = "\<lambda>S. tracked_ok (shadow_profile S)" and f = "workflow_node_fn E"])
     (auto dest: workflow_node_fn_tracked)

lemma graph_invoke_tracked:
  "graph_invoke E S = Inr S' \<Longrightarrow> tracked_ok (shadow_profile S) \<Longrightarrow> tracked_ok (shadow_profile S')"
  by (auto simp: graph_invoke_def split: if_splits dest: workflow_run_tracked)

lemma chat_step_returns:
  assumes "global_state g = Some st"
      and "graph_invoke E (st\<lparr>messages := messages st
             @ [if user_message \<noteq> [] then Some (HumanMessage user_message) else None]\<rparr>) = Inr st2"
  shows "global_state (fst (chat_step E user_message session_id g)) = Some st2"
  using assms by (auto simp: chat_step_def Let_def split: option.splits sum.splits)

text \<open>
  C8, amended. On the empty completion map the routing is not guarded: it raises
  \<^verbatim>\<open>ZeroDivisionError\<close>. It raises \<^verbatim>\<open>ZeroDivisionError\<close> exactly when the importances of the
  tracked fields sum to zero; the one other exception it can raise is the \<^verbatim>\<open>OverflowError\<close>
  of the division, and it raises none but \<^verbatim>\<open>ZeroDivisionError\<close> when no importance is
  negative. On a non-empty map with positive importances the routing returns a route.
  \<^verbatim>\<open>start_session\<close> installs such a map; the two writes the code makes to the map, marking
  fields collected and adding the fields of a template, keep it such a map; and every turn
  whose graph run returns leaves the session with such a map.
\<close>

theorem route_decision_extractor_total_importance:
  "(route_decision_extractor state = Inl ZeroDivisionError
      \<longleftrightarrow> sum_list (map (\<lambda>(f, e). importance e) (shadow_profile state)) = 0)
   \<and> (shadow_profile state = [] \<longrightarrow> route_decision_extractor state = Inl ZeroDivisionError)
   \<and> (\<forall>e. route_decision_extractor state = Inl e \<longrightarrow> e = ZeroDivisionError \<or> e = OverflowError)
   \<and> ((\<forall>(f, e) \<in> set (shadow_profile state). 0 \<le> importance e) \<longrightarrow>
        (\<forall>e. route_decision_extractor state = Inl e \<longrightarrow> e = ZeroDivisionError))
   \<and> (tracked_ok (shadow_profile state) \<longrightarrow> (\<exists>r. route_decision_extractor state = Inr r))
   \<and> tracked_ok (shadow_profile initial_state)
   \<and> (tracked_ok (shadow_profile state) \<longrightarrow>
        tracked_ok (mark_collected response_keys (shadow_profile state)))
   \<and> (tracked_ok (shadow_profile state) \<and> map_of prompt_infos category = Some questions \<longrightarrow>
        tracked_ok (add_questions questions (shadow_profile state)))
   \<and> (global_state g = Some state \<and> tracked_ok (shadow_profile state)
        \<and> graph_invoke E (state\<lparr>messages := messages state
             @ [if user_message \<noteq> [] then Some (HumanMessage user_message) else None]\<rparr>) = Inr st2 \<longrightarrow>
        global_state (fst (chat_step E user_message session_id g)) = Some st2
        \<and> tracked_ok (shadow_profile st2))"
proof -
  let ?p = "shadow_profile state"
  have a: "route_decision_extractor state = Inl ZeroDivisionError
      \<longleftrightarrow> sum_list (map (\<lambda>(f, e). importance e) ?p) = 0"
    using truediv_zero
      [of "sum_list (map (\<lambda>(f, e). importance e) (filter (\<lambda>(f, e). collected e) ?p))"
          "sum_list (map (\<lambda>(f, e). importance e) ?p)"]
    by (auto simp add: route_decision_extractor_def current_completeness_sums Let_def
        split: sum.splits)
  have a': "route_decision_extractor state = Inl ZeroDivisionError" if "?p = []"
    using that a by simp
  have b: "\<forall>e. route_decision_extractor state = Inl e \<longrightarrow> e = ZeroDivisionError \<or> e = OverflowError"
    by (auto simp add: route_decision_extractor_def current_completeness_sums Let_def
        split: sum.splits if_splits dest: truediv_raises)
  have b': "\<forall>e. route_decision_extractor state = Inl e \<longrightarrow> e = ZeroDivisionError"
    if nn: "\<forall>(f, e) \<in> set ?p. 0 \<le> importance e"
  proof (cases "sum_list (map (\<lambda>(f, e). importance e) ?p) = 0")
    case True
    then show ?thesis using a by simp
  next
    case False
    then show ?thesis
      by (simp add: route_decision_extractor_def current_completeness_nonneg [OF nn] Let_def)
  qed
  have c: "\<exists>r. route_decision_extractor state = Inr r" if "tracked_ok ?p"
  proof -
    from that have "0 < sum_list (map (\<lambda>(f, e). importance e) ?p)"
      by (intro total_pos) (auto simp: tracked_ok_def list_all_iff)
    moreover from that have "\<forall>(f, e) \<in> set ?p. 0 \<le> importance e"
      by (fastforce simp: tracked_ok_def list_all_iff)
    ultimately show ?thesis
      by (simp add: route_decision_extractor_def current_completeness_nonneg Let_def)
  qed
  have d: "tracked_ok (shadow_profile initial_state)"
    by (simp add: tracked_ok_def initial_state_def)
  have m: "tracked_ok (mark_collected response_keys ?p)" if "tracked_ok ?p"
    using that by (rule tracked_ok_mark_collected)
  have q: "tracked_ok (add_questions questions ?p)"
    if "tracked_ok ?p \<and> map_of prompt_infos category = Some questions"
    using that by (intro tracked_ok_add_questions prompt_infos_positive [of category]) simp_all
  have t: "global_state (fst (chat_step E user_message session_id g)) = Some st2
        \<and> tracked_ok (shadow_profile st2)"
    if "global_state g = Some state \<and> tracked_ok ?p
        \<and> graph_invoke E (state\<lparr>messages := messages state
             @ [if user_message \<noteq> [] then Some (HumanMessage user_message) else None]\<rparr>) = Inr st2"
  proof -
    have "tracked_ok (shadow_profile st2)"
      using that by (auto dest: graph_invoke_tracked)
    then show ?thesis using that by (simp add: chat_step_returns)
  qed
  from a a' b b' c d m q t show ?thesis by blast
qed

theorem route_decision_extractor_total_importance_witness:
  "route_decision_extractor
     (initial_state\<lparr>shadow_profile := [(''goal'', \<lparr>collected = False, importance = 0\<rparr>)]\<rparr>)
     = Inl ZeroDivisionError
   \<and> route_decision_extractor (initial_state\<lparr>shadow_profile := []\<rparr>) = Inl ZeroDivisionError
   \<and> (\<exists>r. route_decision_extractor initial_state = Inr r)
   \<and> tracked_ok (mark_collected [''goal'', ''age''] (shadow_profile initial_state))
   \<and> tracked_ok (add_questions
        [question ''retirement_age'' 5, question ''desired_monthly_spending'' 5,
         question ''large_planned_expenses'' 4, question ''travel_frequency'' 3,
         question ''lifestyle_upgrades'' 2]
        (shadow_profile initial_state))
   \<and> map_sum id response (snd (chat_step chat_env ''I want to retire early'' ''s1'' started))
        = Inr ''How old are you?''
   \<and> (\<exists>st2. global_state (fst (chat_step chat_env ''I want to retire early'' ''s1'' started)) = Some st2
             \<and> tracked_ok (shadow_profile st2))"
proof -
  have g: "global_state started = Some initial_state"
    by (simp add: started_def start_session_def)
  have t: "tracked_ok (shadow_profile initial_state)"
    by (simp add: tracked_ok_def initial_state_def)
  have p: "map_of prompt_infos ''spend'' =
     Some [question ''retirement_age'' 5, question ''desired_monthly_spending'' 5,
           question ''large_planned_expenses'' 4, question ''travel_frequency'' 3,
           question ''lifestyle_upgrades'' 2]"
    by (simp add: prompt_infos_def)
  have "case graph_invoke chat_env
              (initial_state\<lparr>messages := messages initial_state @ [Some (HumanMessage ''I want to retire early'')]\<rparr>)
        of Inl e \<Rightarrow> False | Inr st2 \<Rightarrow> True"
    by code_simp
  then obtain st2 where i: "graph_invoke chat_env
       (initial_state\<lparr>messages := messages initial_state @ [Some (HumanMessage ''I want to retire early'')]\<rparr>)
     = Inr st2"
    by (auto split: sum.splits)
  have r: "map_sum id response (snd (chat_step chat_env ''I want to retire early'' ''s1'' started))
             = Inr ''How old are you?''"
    by code_simp
  from route_decision_extractor_total_importance
         [of "initial_state\<lparr>shadow_profile := [(''goal'', \<lparr>collected = False, importance = 0\<rparr>)]\<rparr>"]
  have 1: "route_decision_extractor
     (initial_state\<lparr>shadow_profile := [(''goal'', \<lparr>collected = False, importance = 0\<rparr>)]\<rparr>)
     = Inl ZeroDivisionError"
    by simp
  from route_decision_extractor_total_importance [of "initial_state\<lparr>shadow_profile := []\<rparr>"]
  have 2: "route_decision_extractor (initial_state\<lparr>shadow_profile := []\<rparr>) = Inl ZeroDivisionError"
    by simp
  from route_decision_extractor_total_importance
         [of initial_state "[''goal'', ''age'']" "''spend''" _ started chat_env
             "''I want to retire early''" st2 "''s1''"] g t p i
  have 3: "(\<exists>r. route_decision_extractor initial_state = Inr r)
     \<and> tracked_ok (mark_collected [''goal'', ''age''] (shadow_profile initial_state))
     \<and> tracked_ok (add_questions
        [question ''retirement_age'' 5, question ''desired_monthly_spending'' 5,
         question ''large_planned_expenses'' 4, question ''travel_frequency'' 3,
         question ''lifestyle_upgrades'' 2]
        (shadow_profile initial_state))
     \<and> global_state (fst (chat_step chat_env ''I want to retire early'' ''s1'' started)) = Some st2
     \<and> tracked_ok (shadow_profile st2)"
    by simp
  from 1 2 3 r show ?thesis by blast
qed

subsection \<open>Template selection\<close>

lemma add_questions_Cons:
  "add_questions ((f, q) # qs) sh =
     add_questions qs (AList.update f \<lparr>collected = False, importance = importance q\<rparr> sh)"
  by (simp add: add_questions_def)

lemma add_questions_other:
  "k \<notin> fst ` set qs \<Longrightarrow> map_of (add_questions qs sh) k = map_of sh k"
proof (induction qs arbitrary: sh)
  case Nil
  then show ?case by (simp add: add_questions_def)
next
  case (Cons a qs)
  obtain f q where a: "a = (f, q)" by (cases a)
  from Cons.prems a have "k \<noteq> f" "k \<notin> fst ` set qs" by auto
  then show ?case
    by (simp add: a add_questions_Cons Cons.IH update_conv')
qed

lemma add_questions_in:
  "distinct (map fst qs) \<Longrightarrow> (k, q) \<in> set qs \<Longrightarrow>
     map_of (add_questions qs sh) k = Some \<lparr>collected = False, importance = importance q\<rparr>"
proof (induction qs arbitrary: sh)
  case Nil
  then show ?case by simp
next
  case (Cons a qs)
  obtain f q' where a: "a = (f, q')" by (cases a)
  show ?case
  proof (cases "(k, q) = a")
    case True
    with Cons.prems a have "k \<notin> fst ` set qs" "f = k" "q' = q" by auto
    then show ?thesis
      by (simp add: a add_questions_Cons add_questions_other update_conv')
  next
    case False
    with Cons.prems have "(k, q) \<in> set qs" "distinct (map fst qs)" by auto
    then show ?thesis
      by (simp add: a add_questions_Cons Cons.IH)
  qed
qed

lemma keys_add_questions:
  "fst ` set (add_questions qs sh) = fst ` set sh \<union> fst ` set qs"
proof (induction qs arbitrary: sh)
  case Nil
  then show ?case by (simp add: add_questions_def)
next
  case (Cons a qs)
  obtain f q where a: "a = (f, q)" by (cases a)
  have "fst ` set (AList.update f v sh) = insert f (fst ` set sh)" for v
    using dom_update [of f v sh] by (simp add: dom_map_of_conv_image_fst)
  then show ?case
    by (auto simp add: a add_questions_Cons Cons.IH)
qed

lemma prompt_infos_distinct:
  "map_of prompt_infos c = Some qs \<Longrightarrow> distinct (map fst qs)"
  by (auto simp: prompt_infos_def question_def split: if_splits)

text \<open>
  C2 as stated fails: after the classifier answers \<^verbatim>\<open>Spend\<close> on a session that has collected
  the five fields of goal discovery, those five fields are still tracked, ahead of the five
  fields of the template; none of them is a field of the template.
\<close>

theorem call_matcher_keeps_fields_counterexample:
  "map_sum id (\<lambda>st. map fst (shadow_profile st)) (run_matcher spend_env collected_state) =
     Inr [''goal'', ''age'', ''salary'', ''savings'', ''location'', ''retirement_age'',
          ''desired_monthly_spending'', ''large_planned_expenses'', ''travel_frequency'',
          ''lifestyle_upgrades'']
   \<and> map_of prompt_infos ''spend'' = Some
       [question ''retirement_age'' 5, question ''desired_monthly_spending'' 5,
        question ''large_planned_expenses'' 4, question ''travel_frequency'' 3,
        question ''lifestyle_upgrades'' 2]"
  by (simp add: run_matcher_def matcher_subgraph_def call_matcher_def spend_env_def example_env_def
      collected_state_def initial_state_def user_goal_of_def AIMessage_def strip_def is_space_def
      lower_def lower_char_def prompt_infos_def add_questions_def question_def Let_def)

text \<open>
  C2, amended. Selecting a template adds the template's fields to the tracked set: the tracked
  fields after the switch are the fields tracked before together with the fields of the
  selected template; every field of the template is uncollected with the template's
  importance; every other field keeps the entry it had.
\<close>

theorem call_matcher_adds_template_fields:
  assumes "call_matcher E state = Inr state'"
  shows "\<exists>category questions.
           selected_template state' = Some category
         \<and> map_of prompt_infos category = Some questions
         \<and> fst ` set (m_shadow_profile state') = fst ` set (m_shadow_profile state) \<union> fst ` set questions
         \<and> (\<forall>(field, info) \<in> set questions.
               map_of (m_shadow_profile state') field = Some \<lparr>collected = False, importance = importance info\<rparr>)
         \<and> (\<forall>field. field \<notin> fst ` set questions \<longrightarrow>
               map_of (m_shadow_profile state') field = map_of (m_shadow_profile state) field)"
proof -
  from assms obtain category questions where
    q: "map_of prompt_infos category = Some questions" and
    s: "state' = state\<lparr>selected_template := Some category,
                       m_shadow_profile := add_questions questions (m_shadow_profile state)\<rparr>"
    by (auto simp: call_matcher_def Let_def split: sum.splits option.splits)
  have d: "distinct (map fst questions)" using q by (rule prompt_infos_distinct)
  show ?thesis
    apply (rule exI [of _ category], rule exI [of _ questions])
    using q d by (auto simp: s keys_add_questions add_questions_other add_questions_in)
qed

theorem call_matcher_adds_template_fields_witness:
  "\<exists>state'. call_matcher spend_env spend_matcher_state = Inr state'
     \<and> (\<exists>category questions.
           selected_template state' = Some category
         \<and> map_of prompt_infos category = Some questions
         \<and> fst ` set (m_shadow_profile state')
             = fst ` set (m_shadow_profile spend_matcher_state) \<union> fst ` set questions)"
proof -
  have h: "call_matcher spend_env spend_matcher_state =
     Inr (spend_matcher_state\<lparr>selected_template := Some ''spend'',
            m_shadow_profile := add_questions
              [question ''retirement_age'' 5, question ''desired_monthly_spending'' 5,
               question ''large_planned_expenses'' 4, question ''travel_frequency'' 3,
               question ''lifestyle_upgrades'' 2] (m_shadow_profile spend_matcher_state)\<rparr>)"
    by (simp add: call_matcher_def spend_env_def example_env_def user_goal_of_def AIMessage_def
        strip_def is_space_def lower_def lower_char_def prompt_infos_def Let_def)
  from call_matcher_adds_template_fields [OF h] h show ?thesis by blast
qed

subsection \<open>A turn through the extractor\<close>

lemmas example_defs =
  goal_env_def example_env_def goal_json_def travel_json_def first_turn_def initial_state_def
  HumanMessage_def AIMessage_def SystemMessage_def system_prompt_chatbot_def assistant_message_def
  system_prompt_extract_def extractor_request_def title_prompt_def startswith_def
  last_chatbot_def strip_def is_space_def

lemma those_snoc: "those (ms @ [Some x]) = map_option (\<lambda>l. l @ [x]) (those ms)"
  by (induction ms) (auto simp: option.map_comp comp_def split: option.splits)

lemma those_no_None: "None \<notin> set ms \<Longrightarrow> those ms = Some (map the ms)"
proof (induction ms)
  case Nil
  then show ?case by simp
next
  case (Cons a ms)
  then show ?case by (cases a) auto
qed

lemma human_messages_snoc:
  "None \<notin> set ms \<Longrightarrow>
     human_messages (ms @ [Some (HumanMessage um)]) =
       Inr (filter (\<lambda>m. mtype m = human) (map the ms) @ [HumanMessage um])"
  by (simp add: human_messages_def those_snoc those_no_None HumanMessage_def)

lemma last_slice_snoc: "last_slice (last_slice (xs @ [x])) = [x]"
  by (simp add: last_slice_def)

lemma run_extractor_input:
  assumes "None \<notin> set ms" and "messages S = ms @ [Some (HumanMessage um)]"
  shows "run_extractor E S =
     (case extractor_subgraph E ((extractor S)
             \<lparr>ex_shadow_profile := shadow_profile S,
              ex_messages := [HumanMessage (content (last_chatbot (chatbot S))), HumanMessage um]\<rparr>) of
        Inl e \<Rightarrow> Inl e
      | Inr ex' \<Rightarrow>
          Inr (S\<lparr>extractor := ex',
                 real_profile := (case ex_real_profile ex' of None \<Rightarrow> [] | Some rp \<Rightarrow> rp),
                 shadow_profile := ex_shadow_profile ex',
                 conversation_title := ex_conversation_title ex'\<rparr>))"
  using assms by (simp add: run_extractor_def human_messages_snoc last_slice_snoc Let_def)

lemma call_extractor_unparseable:
  assumes "model_extractor E (extractor_request E (ex_shadow_profile state) (ex_messages state)) = Inr resp"
      and "json_loads E (content resp) = None"
  shows "call_extractor E state = Inl JSONDecodeError"
  using assms by (simp add: call_extractor_def Let_def)

lemma run_graph_numeral:
  "run_graph (numeral v) node_fn nxt n s =
     (case node_fn n s of
        Inl e \<Rightarrow> ([n], Inl e)
      | Inr s' \<Rightarrow>
         (case nxt n s' of
            Inl e \<Rightarrow> ([n], Inl e)
          | Inr None \<Rightarrow> ([n], Inr s')
          | Inr (Some n') \<Rightarrow>
             (case run_graph (pred_numeral v) node_fn nxt n' s' of
                (trace, result) \<Rightarrow> (n # trace, result))))"
  using run_graph.simps(2) [of "pred_numeral v" node_fn nxt n s]
  by (simp add: numeral_eq_Suc)

lemma graph_invoke_extractor_fails:
  "None \<notin> set (messages S) \<Longrightarrow> run_extractor E S = Inl e \<Longrightarrow> graph_invoke E S = Inl e"
  by (simp add: graph_invoke_def workflow_run_def recursion_limit_def run_graph_numeral workflow_node_fn_def)

lemma chat_step_graph_fails:
  assumes "global_state g = Some st"
      and "graph_invoke E (st\<lparr>messages := messages st
             @ [if user_message \<noteq> [] then Some (HumanMessage user_message) else None]\<rparr>) = Inl e"
  shows "chat_step E user_message session_id g =
           (g\<lparr>global_state := Some (st\<lparr>messages := messages st
                @ [if user_message \<noteq> [] then Some (HumanMessage user_message) else None]\<rparr>)\<rparr>, Inl e)"
  using assms by (simp add: chat_step_def Let_def)

text \<open>
  C3. The claim asks that an extractor response that is not parseable as JSON be taken as
  "no new information" and never fail the turn. The code does otherwise: whenever the
  extractor model answers a turn with such a text, \<^verbatim>\<open>json.loads\<close> raises
  \<^verbatim>\<open>JSONDecodeError\<close>, nothing catches it, and it leaves \<^verbatim>\<open>chat_step\<close>.
\<close>

theorem unparseable_extraction_fails_turn:
  assumes "global_state g = Some st" and "None \<notin> set (messages st)" and "user_message \<noteq> []"
      and "model_extractor E
             (extractor_request E (shadow_profile st)
                [HumanMessage (content (last_chatbot (chatbot st))), HumanMessage user_message])
           = Inr resp"
      and "json_loads E (content resp) = None"
  shows "snd (chat_step E user_message session_id g) = Inl JSONDecodeError"
proof -
  let ?S = "st\<lparr>messages := messages st @ [Some (HumanMessage user_message)]\<rparr>"
  let ?ex = "(extractor ?S)
             \<lparr>ex_shadow_profile := shadow_profile ?S,
              ex_messages := [HumanMessage (content (last_chatbot (chatbot ?S))), HumanMessage user_message]\<rparr>"
  have "call_extractor E ?ex = Inl JSONDecodeError"
    by (rule call_extractor_unparseable [where resp = resp]) (use assms in simp_all)
  then have "extractor_subgraph E ?ex = Inl JSONDecodeError"
    by (simp add: extractor_subgraph_def)
  then have "run_extractor E ?S = Inl JSONDecodeError"
    using assms(2) by (simp add: run_extractor_input [where ms = "messages st" and um = user_message])
  then have "graph_invoke E ?S = Inl JSONDecodeError"
    using assms(2) by (intro graph_invoke_extractor_fails) simp_all
  then show ?thesis
    using chat_step_graph_fails [OF assms(1), of E user_message JSONDecodeError session_id] assms(3)
    by simp
qed

theorem unparseable_extraction_fails_turn_witness:
  "snd (chat_step unparseable_env ''I want to retire early'' ''s1'' started) = Inl JSONDecodeError"
  by (rule unparseable_extraction_fails_turn
        [where st = initial_state and resp = "AIMessage ''I could not find any new information.''"])
     (simp_all add: started_def start_session_def initial_state_def unparseable_env_def
        example_env_def AIMessage_def)

subsection \<open>Failed turns\<close>

text \<open>
  C4 as stated fails: with every model unreachable, the first turn of a session raises, and
  the master message history of the session, empty before the turn, holds the user's message
  after it.
\<close>

theorem failed_turn_counterexample:
  "snd (chat_step example_env ''I want to retire early'' ''s1'' started) = Inl (ModelError ''unavailable'')
   \<and> map_option messages (global_state started) = Some []
   \<and> map_option messages (global_state (fst (chat_step example_env ''I want to retire early'' ''s1'' started)))
       = Some [Some (HumanMessage ''I want to retire early'')]"
proof -
  have g: "global_state started = Some initial_state"
    by (simp add: started_def start_session_def)
  have "run_extractor example_env
          (initial_state\<lparr>messages := messages initial_state @ [Some (HumanMessage ''I want to retire early'')]\<rparr>)
        = Inl (ModelError ''unavailable'')"
    by (simp add: run_extractor_input [where ms = "[]" and um = "''I want to retire early''"]
        initial_state_def extractor_subgraph_def call_extractor_def example_env_def)
  then have "graph_invoke example_env
          (initial_state\<lparr>messages := messages initial_state @ [Some (HumanMessage ''I want to retire early'')]\<rparr>)
        = Inl (ModelError ''unavailable'')"
    by (intro graph_invoke_extractor_fails) (simp_all add: initial_state_def)
  then have "chat_step example_env ''I want to retire early'' ''s1'' started =
      (started\<lparr>global_state := Some (initial_state\<lparr>messages := messages initial_state
           @ [Some (HumanMessage ''I want to retire early'')]\<rparr>)\<rparr>, Inl (ModelError ''unavailable''))"
    using chat_step_graph_fails [OF g, of example_env "''I want to retire early''"
        "ModelError ''unavailable''" "''s1''"]
    by simp
  then show ?thesis
    by (simp add: g) (simp add: initial_state_def)
qed

text \<open>
  C4, amended. A turn whose graph run raises passes the exception to the caller and is not
  rolled back: the master message history of the session state is the history before the turn
  with the turn's message appended, so the state differs from the state before the turn; the
  conversation title of the state and the remembered previous assistant message are as they
  were.
\<close>

theorem failed_turn_keeps_message:
  assumes "global_state g = Some st"
      and "graph_invoke E (st\<lparr>messages := messages st
             @ [if user_message \<noteq> [] then Some (HumanMessage user_message) else None]\<rparr>) = Inl e"
  shows "snd (chat_step E user_message session_id g) = Inl e
       \<and> map_option messages (global_state (fst (chat_step E user_message session_id g)))
           = Some (messages st @ [if user_message \<noteq> [] then Some (HumanMessage user_message) else None])
       \<and> global_state (fst (chat_step E user_message session_id g)) \<noteq> global_state g
       \<and> map_option conversation_title (global_state (fst (chat_step E user_message session_id g)))
           = Some (conversation_title st)
       \<and> prev_assistant_message (fst (chat_step E user_message session_id g)) = prev_assistant_message g"
proof -
  let ?st1 = "st\<lparr>messages := messages st
             @ [if user_message \<noteq> [] then Some (HumanMessage user_message) else None]\<rparr>"
  have c: "chat_step E user_message session_id g = (g\<lparr>global_state := Some ?st1\<rparr>, Inl e)"
    using assms by (rule chat_step_graph_fails)
  have "messages ?st1 \<noteq> messages st" by simp
  then have ne: "?st1 \<noteq> st" by metis
  show ?thesis using ne by (simp add: c assms(1))
qed

theorem failed_turn_keeps_message_witness:
  "snd (chat_step example_env ''I want to retire early'' ''s1'' started) = Inl (ModelError ''unavailable'')
   \<and> global_state (fst (chat_step example_env ''I want to retire early'' ''s1'' started))
       \<noteq> global_state started"
proof -
  have g: "global_state started = Some initial_state"
    by (simp add: started_def start_session_def)
  have "run_extractor example_env
          (initial_state\<lparr>messages := messages initial_state @ [Some (HumanMessage ''I want to retire early'')]\<rparr>)
        = Inl (ModelError ''unavailable'')"
    by (simp add: run_extractor_input [where ms = "[]" and um = "''I want to retire early''"]
        initial_state_def extractor_subgraph_def call_extractor_def example_env_def)
  then have "graph_invoke example_env
          (initial_state\<lparr>messages := messages initial_state @ [Some (HumanMessage ''I want to retire early'')]\<rparr>)
        = Inl (ModelError ''unavailable'')"
    by (intro graph_invoke_extractor_fails) (simp_all add: initial_state_def)
  then show ?thesis
    using failed_turn_keeps_message [OF g, of example_env "''I want to retire early''"
        "ModelError ''unavailable''" "''s1''"]
    by simp
qed

subsection \<open>Goal and title\<close>

lemma last_extractor_request:
  "msgs \<noteq> [] \<Longrightarrow> last (extractor_request E shadow msgs) = last msgs"
  by (simp add: extractor_request_def)

lemma call_extractor_goal:
  assumes "model_extractor E (extractor_request E (ex_shadow_profile state) (ex_messages state)) = Inr resp"
      and "json_loads E (content resp) = Some (JDict items)"
      and "''goal'' \<in> fst ` set items"
      and "model_extractor E
             (title_prompt (content (last (extractor_request E (ex_shadow_profile state) (ex_messages state)))))
           = Inr t"
  shows "call_extractor E state =
     Inr (Some (state
       \<lparr>ex_messages := extractor_request E (ex_shadow_profile state) (ex_messages state),
        ex_real_profile := Some (AList.update ''goal''
           (JStr (content (last (extractor_request E (ex_shadow_profile state) (ex_messages state)))))
           (dict_update (case ex_real_profile state of None \<Rightarrow> [] | Some rp \<Rightarrow> rp) items)),
        ex_shadow_profile := mark_collected (map fst items) (ex_shadow_profile state),
        all_fields_filled := list_all (\<lambda>(field, info). collected info)
           (mark_collected (map fst items) (ex_shadow_profile state)),
        ex_conversation_title := strip (content t)\<rparr>))"
proof -
  from assms(3) have "items \<noteq> []" by auto
  then show ?thesis
    using assms by (simp add: call_extractor_def Let_def)
qed

lemma call_extractor_no_goal:
  assumes "model_extractor E (extractor_request E (ex_shadow_profile state) (ex_messages state)) = Inr resp"
      and "json_loads E (content resp) = Some (JDict items)"
      and "''goal'' \<notin> fst ` set items"
  shows "map_sum id ex_conversation_title (extractor_subgraph E state) = Inr (ex_conversation_title state)"
  using assms by (cases "items = []") (simp_all add: extractor_subgraph_def call_extractor_def Let_def)

text \<open>
  C7 as stated fails: the first turn stores the goal and the title
  \<^verbatim>\<open>Early Retirement Plan\<close>; in the second turn the extractor's object holds \<^verbatim>\<open>goal\<close>
  again, and the stored title is replaced.
\<close>

theorem title_overwritten_counterexample:
  "map_sum id conversation_title (run_extractor goal_env first_turn) = Inr ''Early Retirement Plan''
   \<and> conversation_title second_turn = ''Early Retirement Plan''
   \<and> map_of (real_profile second_turn) ''goal'' = Some (JStr ''I want to retire early'')
   \<and> map_sum id conversation_title (run_extractor goal_env second_turn) = Inr ''Travel The World''"
  by (simp add: second_turn_def run_extractor_def human_messages_def last_slice_def
      extractor_subgraph_def call_extractor_def mark_collected_def dict_update_def Let_def
      example_defs)

text \<open>
  C7, amended. Title generation runs on every extraction whose returned object holds a
  \<^verbatim>\<open>goal\<close> key, with no look at the stored title: the stored title becomes the stripped
  answer of the title model. An extraction whose object has no \<^verbatim>\<open>goal\<close> key leaves the
  title as it was.
\<close>

theorem extractor_title_regenerated:
  assumes "model_extractor E (extractor_request E (ex_shadow_profile state) (ex_messages state)) = Inr resp"
      and "json_loads E (content resp) = Some (JDict items)"
  shows "(''goal'' \<in> fst ` set items \<longrightarrow>
            (\<forall>t. model_extractor E
                   (title_prompt (content (last
                      (extractor_request E (ex_shadow_profile state) (ex_messages state))))) = Inr t
                 \<longrightarrow> map_sum id ex_conversation_title (extractor_subgraph E state)
                       = Inr (strip (content t))))
       \<and> (''goal'' \<notin> fst ` set items \<longrightarrow>
            map_sum id ex_conversation_title (extractor_subgraph E state)
              = Inr (ex_conversation_title state))"
proof (intro conjI impI allI)
  fix t
  assume "''goal'' \<in> fst ` set items"
     and "model_extractor E
            (title_prompt (content (last
               (extractor_request E (ex_shadow_profile state) (ex_messages state))))) = Inr t"
  then show "map_sum id ex_conversation_title (extractor_subgraph E state) = Inr (strip (content t))"
    using call_extractor_goal [OF assms] by (simp add: extractor_subgraph_def)
next
  assume "''goal'' \<notin> fst ` set items"
  then show "map_sum id ex_conversation_title (extractor_subgraph E state)
               = Inr (ex_conversation_title state)"
    using assms by (rule call_extractor_no_goal [rotated 2])
qed

theorem extractor_title_regenerated_witness:
  "map_sum id ex_conversation_title (extractor_subgraph goal_env titled_state) = Inr ''Travel The World''
   \<and> ex_conversation_title titled_state = ''Early Retirement Plan''"
proof -
  have a: "model_extractor goal_env
             (extractor_request goal_env (ex_shadow_profile titled_state) (ex_messages titled_state))
           = Inr (AIMessage travel_json)"
    by (simp add: example_defs titled_state_def)
  have b: "json_loads goal_env (content (AIMessage travel_json)) = Some (JDict [(''goal'', JStr ''travel'')])"
    by (simp add: example_defs)
  have c: "model_extractor goal_env
             (title_prompt (content (last
                (extractor_request goal_env (ex_shadow_profile titled_state) (ex_messages titled_state)))))
           = Inr (AIMessage '' Travel The World '')"
    by (simp add: example_defs titled_state_def)
  have d: "strip (content (AIMessage '' Travel The World '')) = ''Travel The World''"
    by (simp add: example_defs)
  from extractor_title_regenerated [OF a b] c d show ?thesis
    by (simp add: titled_state_def)
qed

lemma default_template: "map_of prompt_infos ''default'' \<noteq> None"
  by (simp add: prompt_infos_def)

lemma run_matcher_goal:
  assumes "user_goal_of (real_profile S) = goal"
  shows "(\<forall>e. matcher_chain E goal = Inl e \<longrightarrow> run_matcher E S = Inl e)
       \<and> (\<forall>r. matcher_chain E goal = Inr r \<longrightarrow>
            (\<exists>M. run_matcher E S = Inr M
                \<and> selected_template (matcher M)
                    = Some (if map_of prompt_infos (lower (strip (content r))) = None then ''default''
                            else lower (strip (content r)))))"
proof (intro conjI allI impI)
  fix e
  assume "matcher_chain E goal = Inl e"
  then show "run_matcher E S = Inl e"
    using assms by (simp add: run_matcher_def matcher_subgraph_def call_matcher_def Let_def)
next
  fix r
  let ?c = "if map_of prompt_infos (lower (strip (content r))) = None then ''default''
            else lower (strip (content r))"
  assume r: "matcher_chain E goal = Inr r"
  have "map_of prompt_infos ?c \<noteq> None" using default_template by simp
  then obtain qs where qs: "map_of prompt_infos ?c = Some qs" by blast
  have "call_matcher E ((matcher S)\<lparr>m_shadow_profile := shadow_profile S,
            m_real_profile := real_profile S, m_messages := []\<rparr>)
        = Inr ((matcher S)\<lparr>m_shadow_profile := shadow_profile S,
            m_real_profile := real_profile S, m_messages := [],
            selected_template := Some ?c,
            m_shadow_profile := add_questions qs (shadow_profile S)\<rparr>)"
    using assms r qs by (simp add: call_matcher_def Let_def)
  then show "\<exists>M. run_matcher E S = Inr M \<and> selected_template (matcher M) = Some ?c"
    by (simp add: run_matcher_def matcher_subgraph_def Let_def)
qed

text \<open>
  C10. Whenever the extractor's object holds a \<^verbatim>\<open>goal\<close> key, whatever value it has there, the
  value stored under \<^verbatim>\<open>goal\<close> in the real profile is the text of the user's latest message.
  That text is what the title model is asked about: the request for a title ends with the
  text between quotes, and the stored title is the stripped answer to that request. It is
  also what the classifier reads as the user's goal: the matcher, run on the state the
  extractor returned, calls the classifier chain with that text, fails with the chain's
  exception when the chain fails, and selects the template the chain's answer names.
\<close>

theorem goal_is_latest_user_message:
  assumes "None \<notin> set ms" and "messages S = ms @ [Some (HumanMessage um)]"
      and "model_extractor E
             (extractor_request E (shadow_profile S)
                [HumanMessage (content (last_chatbot (chatbot S))), HumanMessage um]) = Inr resp"
      and "json_loads E (content resp) = Some (JDict items)"
      and "''goal'' \<in> fst ` set items"
      and "model_extractor E (title_prompt um) = Inr t"
  shows "\<exists>S'. run_extractor E S = Inr S'
           \<and> map_of (real_profile S') ''goal'' = Some (JStr um)
           \<and> user_goal_of (real_profile S') = JStr um
           \<and> conversation_title S' = strip (content t)
           \<and> map content (title_prompt um) =
               [''You generate short, clear titles for retirement planning conversations.'',
                ''Create a concise, 3-8 word title summarizing this retirement goal: ''
                  @ [CHR 0x27] @ um @ [CHR 0x27] @ ''.'']
           \<and> (\<forall>e. matcher_chain E (JStr um) = Inl e \<longrightarrow> run_matcher E S' = Inl e)
           \<and> (\<forall>r. matcher_chain E (JStr um) = Inr r \<longrightarrow>
                (\<exists>M. run_matcher E S' = Inr M
                    \<and> selected_template (matcher M)
                        = Some (if map_of prompt_infos (lower (strip (content r))) = None
                                then ''default'' else lower (strip (content r)))))"
proof -
  let ?ex = "(extractor S)
             \<lparr>ex_shadow_profile := shadow_profile S,
              ex_messages := [HumanMessage (content (last_chatbot (chatbot S))), HumanMessage um]\<rparr>"
  have l: "content (last (extractor_request E (ex_shadow_profile ?ex) (ex_messages ?ex))) = um"
    by (simp add: last_extractor_request HumanMessage_def)
  have "\<exists>ex'. call_extractor E ?ex = Inr (Some ex')
          \<and> (\<exists>p. ex_real_profile ex' = Some (AList.update ''goal'' (JStr um) p))
          \<and> ex_conversation_title ex' = strip (content t)"
    using call_extractor_goal [of E ?ex resp items t] assms(3-6) l by auto
  then obtain ex' p where
    c: "call_extractor E ?ex = Inr (Some ex')" and
    p: "ex_real_profile ex' = Some (AList.update ''goal'' (JStr um) p)" and
    t: "ex_conversation_title ex' = strip (content t)"
    by blast
  have "\<exists>S'. run_extractor E S = Inr S'
           \<and> map_of (real_profile S') ''goal'' = Some (JStr um)
           \<and> user_goal_of (real_profile S') = JStr um
           \<and> conversation_title S' = strip (content t)"
    using c p t
    by (simp add: run_extractor_input [OF assms(1,2)] extractor_subgraph_def update_conv'
        user_goal_of_def)
  then obtain S' where S': "run_extractor E S = Inr S'"
      "map_of (real_profile S') ''goal'' = Some (JStr um)"
      "user_goal_of (real_profile S') = JStr um"
      "conversation_title S' = strip (content t)"
    by blast
  have tp: "map content (title_prompt um) =
               [''You generate short, clear titles for retirement planning conversations.'',
                ''Create a concise, 3-8 word title summarizing this retirement goal: ''
                  @ [CHR 0x27] @ um @ [CHR 0x27] @ ''.'']"
    by (simp add: title_prompt_def SystemMessage_def HumanMessage_def)
  note rm = run_matcher_goal [OF S'(3), of E]
  show ?thesis
    by (rule exI [where x = S']) (intro conjI S' tp rm [THEN conjunct1] rm [THEN conjunct2])
qed

theorem goal_is_latest_user_message_witness:
  "\<exists>S'. run_extractor classifier_env first_turn = Inr S'
      \<and> map_of (real_profile S') ''goal'' = Some (JStr ''I want to retire early'')
      \<and> user_goal_of (real_profile S') = JStr ''I want to retire early''
      \<and> conversation_title S' = ''Early Retirement Plan''
      \<and> (\<exists>M. run_matcher classifier_env S' = Inr M \<and> selected_template (matcher M) = Some ''spend'')"
proof -
  have a: "model_extractor classifier_env
             (extractor_request classifier_env (shadow_profile first_turn)
                [HumanMessage (content (last_chatbot (chatbot first_turn))),
                 HumanMessage ''I want to retire early'']) = Inr (AIMessage goal_json)"
    by (simp add: classifier_env_def example_defs)
  have b: "json_loads classifier_env (content (AIMessage goal_json))
             = Some (JDict [(''goal'', JStr ''retire early'')])"
    by (simp add: classifier_env_def example_defs)
  have c: "model_extractor classifier_env (title_prompt ''I want to retire early'')
             = Inr (AIMessage ''Early Retirement Plan'')"
    by (simp add: classifier_env_def example_defs)
  have d: "strip (content (AIMessage ''Early Retirement Plan'')) = ''Early Retirement Plan''"
    by (simp add: example_defs)
  have m: "messages first_turn = [] @ [Some (HumanMessage ''I want to retire early'')]"
    by (simp add: first_turn_def)
  have k: "matcher_chain classifier_env (JStr ''I want to retire early'') = Inr (AIMessage '' Spend '')"
    by (simp add: classifier_env_def)
  have s: "(if map_of prompt_infos (lower (strip (content (AIMessage '' Spend '')))) = None then ''default''
            else lower (strip (content (AIMessage '' Spend '')))) = ''spend''"
    by (simp add: AIMessage_def strip_def is_space_def lower_def lower_char_def prompt_infos_def)
  from goal_is_latest_user_message [OF _ m a b _ c] obtain S' where
    "run_extractor classifier_env first_turn = Inr S'"
    "map_of (real_profile S') ''goal'' = Some (JStr ''I want to retire early'')"
    "user_goal_of (real_profile S') = JStr ''I want to retire early''"
    "conversation_title S' = strip (content (AIMessage ''Early Retirement Plan''))"
    "\<forall>r. matcher_chain classifier_env (JStr ''I want to retire early'') = Inr r \<longrightarrow>
        (\<exists>M. run_matcher classifier_env S' = Inr M
            \<and> selected_template (matcher M)
                = Some (if map_of prompt_infos (lower (strip (content r))) = None
                        then ''default'' else lower (strip (content r))))"
    by auto
  then show ?thesis using d k s by auto
qed

subsection \<open>Bounded turns\<close>

lemma route_decision_extractor_values:
  "route_decision_extractor s = Inr r \<Longrightarrow> r = ''matcher'' \<or> r = ''planner'' \<or> r = ''chatbot''"
  by (auto simp: route_decision_extractor_def Let_def split: sum.splits prod.splits if_splits)

lemma next_extractor:
  "wf_next extractor_n s = Inr t \<Longrightarrow> t = Some matcher_n \<or> t = Some planner_n \<or> t = Some chatbot_n"
  by (auto simp: next_node_def workflow_conditional_edges_def
      dest!: route_decision_extractor_values split: sum.splits option.splits if_splits)

lemma next_matcher: "wf_next matcher_n s = Inr (Some chatbot_n)"
  by (simp add: next_node_def workflow_conditional_edges_def workflow_edges_def)

lemma next_planner: "wf_next planner_n s = Inr None"
  by (simp add: next_node_def workflow_conditional_edges_def workflow_edges_def)

lemma next_summarizer: "wf_next summarizer_n s = Inr None"
  by (simp add: next_node_def workflow_conditional_edges_def workflow_edges_def)

lemma next_chatbot:
  "wf_next chatbot_n s = Inr (Some summarizer_n) \<or> wf_next chatbot_n s = Inr None"
  by (simp add: next_node_def workflow_conditional_edges_def route_decision_summarize_def Let_def)

lemma run_graph_fail:
  "f n s = Inl e \<Longrightarrow> run_graph (Suc k) f nx n s = ([n], Inl e)"
  by simp

lemma run_graph_route_fail:
  "f n s = Inr s' \<Longrightarrow> nx n s' = Inl e \<Longrightarrow> run_graph (Suc k) f nx n s = ([n], Inl e)"
  by simp

lemma run_graph_stop:
  "f n s = Inr s' \<Longrightarrow> nx n s' = Inr None \<Longrightarrow> run_graph (Suc k) f nx n s = ([n], Inr s')"
  by simp

lemma run_graph_step:
  "f n s = Inr s' \<Longrightarrow> nx n s' = Inr (Some n') \<Longrightarrow> run_graph k f nx n' s' = (tr, r) \<Longrightarrow>
     run_graph (Suc k) f nx n s = (n # tr, r)"
  by simp

lemma run_summarizer_node:
  "\<exists>r. \<forall>k. run_graph (Suc k) f wf_next summarizer_n s = ([summarizer_n], r)"
proof (cases "f summarizer_n s")
  case (Inl e)
  then show ?thesis by (blast intro: run_graph_fail)
next
  case (Inr s')
  then show ?thesis by (blast intro: run_graph_stop next_summarizer)
qed

lemma run_planner_node:
  "\<exists>r. \<forall>k. run_graph (Suc k) f wf_next planner_n s = ([planner_n], r)"
proof (cases "f planner_n s")
  case (Inl e)
  then show ?thesis by (blast intro: run_graph_fail)
next
  case (Inr s')
  then show ?thesis by (blast intro: run_graph_stop next_planner)
qed

lemma run_chatbot_node:
  "\<exists>tr r. tr \<in> {[chatbot_n], [chatbot_n, summarizer_n]}
     \<and> (\<forall>k. run_graph (Suc (Suc k)) f wf_next chatbot_n s = (tr, r))"
proof (cases "f chatbot_n s")
  case (Inl e)
  then show ?thesis by (blast intro: run_graph_fail)
next
  case (Inr s')
  from next_chatbot [of s'] show ?thesis
  proof
    assume n: "wf_next chatbot_n s' = Inr (Some summarizer_n)"
    obtain r where "\<forall>k. run_graph (Suc k) f wf_next summarizer_n s' = ([summarizer_n], r)"
      using run_summarizer_node by blast
    then have "\<forall>k. run_graph (Suc (Suc k)) f wf_next chatbot_n s = ([chatbot_n, summarizer_n], r)"
      using Inr n by simp
    then show ?thesis by blast
  next
    assume n: "wf_next chatbot_n s' = Inr None"
    then show ?thesis using Inr by (blast intro: run_graph_stop)
  qed
qed

lemma run_matcher_node:
  "\<exists>tr r. tr \<in> {[matcher_n], [matcher_n, chatbot_n], [matcher_n, chatbot_n, summarizer_n]}
     \<and> (\<forall>k. run_graph (Suc (Suc (Suc k))) f wf_next matcher_n s = (tr, r))"
proof (cases "f matcher_n s")
  case (Inl e)
  then show ?thesis by (blast intro: run_graph_fail)
next
  case (Inr s')
  obtain tr r where t: "tr \<in> {[chatbot_n], [chatbot_n, summarizer_n]}"
    and r: "\<forall>k. run_graph (Suc (Suc k)) f wf_next chatbot_n s' = (tr, r)"
    using run_chatbot_node by blast
  from r have "\<forall>k. run_graph (Suc (Suc (Suc k))) f wf_next matcher_n s = (matcher_n # tr, r)"
    using Inr next_matcher [of s'] by simp
  with t show ?thesis by blast
qed

lemma run_extractor_node:
  "\<exists>tr r. tr \<in> set workflow_traces
     \<and> (\<forall>k. run_graph (Suc (Suc (Suc (Suc k)))) f wf_next extractor_n s = (tr, r))"
proof (cases "f extractor_n s")
  case (Inl e)
  then show ?thesis by (auto simp: workflow_traces_def)
next
  case (Inr s')
  show ?thesis
  proof (cases "wf_next extractor_n s'")
    case (Inl e)
    with Inr show ?thesis by (auto simp: workflow_traces_def)
  next
    case nx: (Inr t)
    from next_extractor [OF nx] consider
      "t = Some matcher_n" | "t = Some planner_n" | "t = Some chatbot_n" by blast
    then show ?thesis
    proof cases
      case 1
      obtain tr r where t: "tr \<in> {[matcher_n], [matcher_n, chatbot_n], [matcher_n, chatbot_n, summarizer_n]}"
        and r: "\<forall>k. run_graph (Suc (Suc (Suc k))) f wf_next matcher_n s' = (tr, r)"
        using run_matcher_node by blast
      from r have "\<forall>k. run_graph (Suc (Suc (Suc (Suc k)))) f wf_next extractor_n s = (extractor_n # tr, r)"
        using Inr nx 1 by simp
      moreover from t have "extractor_n # tr \<in> set workflow_traces"
        by (auto simp: workflow_traces_def)
      ultimately show ?thesis by blast
    next
      case 2
      obtain r where r: "\<forall>k. run_graph (Suc k) f wf_next planner_n s' = ([planner_n], r)"
        using run_planner_node by blast
      from r have "\<forall>k. run_graph (Suc (Suc (Suc (Suc k)))) f wf_next extractor_n s
                        = ([extractor_n, planner_n], r)"
        using Inr nx 2 by simp
      moreover have "[extractor_n, planner_n] \<in> set workflow_traces"
        by (simp add: workflow_traces_def)
      ultimately show ?thesis by blast
    next
      case 3
      obtain tr r where t: "tr \<in> {[chatbot_n], [chatbot_n, summarizer_n]}"
        and r: "\<forall>k. run_graph (Suc (Suc k)) f wf_next chatbot_n s' = (tr, r)"
        using run_chatbot_node by blast
      from r have "\<forall>k. run_graph (Suc (Suc (Suc (Suc k)))) f wf_next extractor_n s = (extractor_n # tr, r)"
        using Inr nx 3 by simp
      moreover from t have "extractor_n # tr \<in> set workflow_traces"
        by (auto simp: workflow_traces_def)
      ultimately show ?thesis by blast
    qed
  qed
qed

lemma workflow_run_bounded:
  "fst (workflow_run E S) \<in> set workflow_traces
   \<and> (\<forall>k. run_graph (4 + k) (workflow_node_fn E) wf_next extractor_n S = workflow_run E S)"
proof -
  obtain tr r where t: "tr \<in> set workflow_traces"
    and r: "\<forall>k. run_graph (Suc (Suc (Suc (Suc k)))) (workflow_node_fn E) wf_next extractor_n S = (tr, r)"
    using run_extractor_node by blast
  have e: "(25::nat) = Suc (Suc (Suc (Suc 21)))" by simp
  have w: "workflow_run E S = (tr, r)"
    using r unfolding workflow_run_def recursion_limit_def e by blast
  have f: "4 + k = Suc (Suc (Suc (Suc k)))" for k by simp
  have "run_graph (4 + k) (workflow_node_fn E) wf_next extractor_n S = (tr, r)" for k
    unfolding f using r by blast
  then show ?thesis using t w by simp
qed

lemma next_query_or_respond:
  "pl_next E query_or_respond_n s = Inr t \<Longrightarrow> t = None \<or> t = Some tools_n"
  by (auto simp: next_node_def planner_conditional_edges_def split: sum.splits option.splits if_splits)

lemma next_tools: "pl_next E tools_n s = Inr (Some call_planner_n)"
  by (simp add: next_node_def planner_conditional_edges_def planner_edges_def)

lemma next_call_planner: "pl_next E call_planner_n s = Inr None"
  by (simp add: next_node_def planner_conditional_edges_def planner_edges_def)

lemma run_call_planner_node:
  "\<exists>r. \<forall>k. run_graph (Suc k) f (pl_next E) call_planner_n s = ([call_planner_n], r)"
proof (cases "f call_planner_n s")
  case (Inl e)
  then show ?thesis by simp
next
  case (Inr s')
  then show ?thesis using next_call_planner [of E s'] by simp
qed

lemma run_tools_node:
  "\<exists>tr r. tr \<in> {[tools_n], [tools_n, call_planner_n]}
     \<and> (\<forall>k. run_graph (Suc (Suc k)) f (pl_next E) tools_n s = (tr, r))"
proof (cases "f tools_n s")
  case (Inl e)
  then show ?thesis by simp
next
  case (Inr s')
  obtain r where "\<forall>k. run_graph (Suc k) f (pl_next E) call_planner_n s' = ([call_planner_n], r)"
    using run_call_planner_node by blast
  then have "\<forall>k. run_graph (Suc (Suc k)) f (pl_next E) tools_n s = ([tools_n, call_planner_n], r)"
    using Inr next_tools [of E s'] by simp
  then show ?thesis by blast
qed

lemma run_query_or_respond_node:
  "\<exists>tr r. tr \<in> set planner_traces
     \<and> (\<forall>k. run_graph (Suc (Suc (Suc k))) f (pl_next E) query_or_respond_n s = (tr, r))"
proof (cases "f query_or_respond_n s")
  case (Inl e)
  then show ?thesis by (auto simp: planner_traces_def)
next
  case (Inr s')
  show ?thesis
  proof (cases "pl_next E query_or_respond_n s'")
    case (Inl e)
    with Inr show ?thesis by (auto simp: planner_traces_def)
  next
    case nx: (Inr t)
    from next_query_or_respond [OF nx] show ?thesis
    proof
      assume "t = None"
      with Inr nx show ?thesis by (auto simp: planner_traces_def)
    next
      assume t: "t = Some tools_n"
      obtain tr r where m: "tr \<in> {[tools_n], [tools_n, call_planner_n]}"
        and r: "\<forall>k. run_graph (Suc (Suc k)) f (pl_next E) tools_n s' = (tr, r)"
        using run_tools_node by blast
      from r have "\<forall>k. run_graph (Suc (Suc (Suc k))) f (pl_next E) query_or_respond_n s
                        = (query_or_respond_n # tr, r)"
        using Inr nx t by simp
      moreover from m have "query_or_respond_n # tr \<in> set planner_traces"
        by (auto simp: planner_traces_def)
      ultimately show ?thesis by blast
    qed
  qed
qed

lemma planner_run_bounded:
  "fst (planner_run E P) \<in> set planner_traces
   \<and> (\<forall>k. run_graph (3 + k) (planner_node_fn E) (pl_next E) query_or_respond_n P = planner_run E P)"
proof -
  obtain tr r where t: "tr \<in> set planner_traces"
    and r: "\<forall>k. run_graph (Suc (Suc (Suc k))) (planner_node_fn E) (pl_next E) query_or_respond_n P = (tr, r)"
    using run_query_or_respond_node by blast
  have e: "(25::nat) = Suc (Suc (Suc 22))" by simp
  have w: "planner_run E P = (tr, r)"
    using r unfolding planner_run_def recursion_limit_def e by blast
  have f: "3 + k = Suc (Suc (Suc k))" for k by simp
  have "run_graph (3 + k) (planner_node_fn E) (pl_next E) query_or_respond_n P = (tr, r)" for k
    unfolding f using r by blast
  then show ?thesis using t w by simp
qed

lemma next_node_successor:
  "next_node edges conditional_edges n s = Inr t \<Longrightarrow> t \<in> set (successors edges conditional_edges n)"
  by (auto simp: next_node_def successors_def split: option.splits sum.splits prod.splits
      dest!: map_of_SomeD intro: rev_image_eqI)

lemma workflow_acyclic:
  "(n, n) \<notin> {(a, b). Some b \<in> set (successors workflow_edges workflow_conditional_edges a)}\<^sup>+"
proof -
  define rank :: "workflow_node \<Rightarrow> nat" where
    "rank = (\<lambda>n. case n of extractor_n \<Rightarrow> 0 | matcher_n \<Rightarrow> 1 | planner_n \<Rightarrow> 1
                   | chatbot_n \<Rightarrow> 2 | summarizer_n \<Rightarrow> 3)"
  let ?R = "{(a, b). Some b \<in> set (successors workflow_edges workflow_conditional_edges a)}"
  have step: "rank a < rank b"
    if "Some b \<in> set (successors workflow_edges workflow_conditional_edges a)" for a b
    using that
    by (cases a; cases b)
       (simp_all add: successors_def workflow_edges_def workflow_conditional_edges_def rank_def)
  have "rank a < rank b" if "(a, b) \<in> ?R\<^sup>+" for a b
    using that by (induction rule: trancl_induct) (auto dest!: step)
  then show ?thesis by (metis less_irrefl)
qed

lemma planner_acyclic:
  "(n, n) \<notin> {(a, b). Some b \<in> set (successors planner_edges (planner_conditional_edges E) a)}\<^sup>+"
proof -
  define rank :: "planner_graph_node \<Rightarrow> nat" where
    "rank = (\<lambda>n. case n of query_or_respond_n \<Rightarrow> 0 | tools_n \<Rightarrow> 1 | call_planner_n \<Rightarrow> 2)"
  let ?R = "{(a, b). Some b \<in> set (successors planner_edges (planner_conditional_edges E) a)}"
  have step: "rank a < rank b"
    if "Some b \<in> set (successors planner_edges (planner_conditional_edges E) a)" for a b
    using that
    by (cases a; cases b)
       (simp_all add: successors_def planner_edges_def planner_conditional_edges_def rank_def)
  have "rank a < rank b" if "(a, b) \<in> ?R\<^sup>+" for a b
    using that by (induction rule: trancl_induct) (auto dest!: step)
  then show ?thesis by (metis less_irrefl)
qed

text \<open>
  C9. Every run of the master graph executes one of the seven node sequences of the bound, at
  most four nodes, and is the same for every recursion limit of at least four, so the limit
  of 25 is never what ends it; no node of the master graph can reach itself. Every run of
  the planner graph executes the query node once, then at most the tool node and then at
  most the synthesis node, is the same for every recursion limit of at least three, and no
  node of the planner graph can reach itself.
\<close>

theorem turn_is_bounded:
  "fst (workflow_run E S) \<in> set workflow_traces
   \<and> (\<forall>k. run_graph (4 + k) (workflow_node_fn E)
             (next_node workflow_edges workflow_conditional_edges) extractor_n S = workflow_run E S)
   \<and> (\<forall>n. (n, n) \<notin> {(a, b). Some b \<in> set (successors workflow_edges workflow_conditional_edges a)}\<^sup>+)
   \<and> fst (planner_run E P) \<in> set planner_traces
   \<and> (\<forall>k. run_graph (3 + k) (planner_node_fn E)
             (next_node planner_edges (planner_conditional_edges E)) query_or_respond_n P = planner_run E P)
   \<and> (\<forall>n. (n, n) \<notin> {(a, b). Some b \<in> set (successors planner_edges (planner_conditional_edges E) a)}\<^sup>+)"
  using workflow_run_bounded [of E S] planner_run_bounded [of E P] workflow_acyclic planner_acyclic [of _ E]
  by blast

subsection \<open>The profile the planner sees\<close>

text \<open>
  \<^verbatim>\<open>run_planner\<close> reads nothing of the master state but its \<^verbatim>\<open>planner\<close> key, and
  \<^verbatim>\<open>query_or_respond\<close> reads no profile of its state at all.
\<close>

lemma planner_ignores_session_profile:
  "run_planner E (S\<lparr>real_profile := rp\<rparr>) = map_sum id (\<lambda>S'. S'\<lparr>real_profile := rp\<rparr>) (run_planner E S)
   \<and> query_or_respond E (P\<lparr>pl_real_profile := x\<rparr>) = query_or_respond E P"
  by (simp add: run_planner_def query_or_respond_def Let_def split: sum.splits option.splits)

text \<open>
  C5. The claim asks that the retrieval-query prompt and the plan-synthesis prompt embed the
  real profile of the session. The code does otherwise: in a session that is ready for the
  planner and has ten profile values, the prompt of the query phase and the prompt of the
  synthesis phase both carry the empty dictionary \<^verbatim>\<open>{}\<close>.
\<close>

theorem planner_prompts_embed_empty_profile:
  "route_decision_extractor ready_state = Inr ''planner''
   \<and> map_sum id planner (run_planner echo_env ready_state) =
     Inr (Some \<lparr>pl_messages =
                  [Message ai (rag_query echo_env) [''contribution limits''],
                   ToolMessage [],
                   AIMessage (system_message_content echo_env [] [])],
                pl_real_profile = None, pl_shadow_profile = None\<rparr>)
   \<and> rag_query echo_env =
       ''You are a Retrieval Assistant. Given the user's retirement profile below, prepare up to 3 targeted retrieval queries User Profile:\<newline>{}\<newline>\<newline>''
   \<and> system_message_content echo_env [] [] =
       ''\<newline>  You are a Retirement Planning Assistant. Your task is to produce a comprehensive, structured retirement plan\<newline>  for a user with profile {}, comparable to a professional financial advisor.\<newline>  Retrieved Context:\<newline>  \<newline>\<newline>  Instructions:\<newline>''
   \<and> str_profile_values echo_env (real_profile ready_state) =
       ''{goal, age, salary, savings, location, retirement_age, desired_monthly_spending, large_planned_expenses, travel_frequency, lifestyle_upgrades}''"
  by code_simp

subsection \<open>Sessions share one state\<close>

text \<open>
  Neither entry point uses its session id: \<^verbatim>\<open>chat_step\<close> works on the one global state
  whatever id it is given, and \<^verbatim>\<open>start_session\<close> overwrites that state.
\<close>

lemma session_id_ignored:
  "chat_step E user_message a g = chat_step E user_message b g
   \<and> fst (start_session a g) = fst (start_session b g)
   \<and> global_state (fst (start_session a g)) = Some initial_state"
  by (simp add: chat_step_def start_session_def)

text \<open>
  C6. The claim asks that creating a session leave every other session's state intact. The
  code does otherwise: after the first turn of session \<^verbatim>\<open>A\<close> has stored a goal and a title,
  \<^verbatim>\<open>start_session("B")\<close> puts the initial state in place of it, and the next turn of
  session \<^verbatim>\<open>A\<close> reports a profile without the goal.
\<close>

theorem new_session_resets_old:
  "map_option real_profile (global_state session_a) = Some [(''goal'', JStr ''I want to retire early'')]
   \<and> map_option conversation_title (global_state session_a) = Some ''Early Retirement Plan''
   \<and> global_state (fst (start_session ''B'' session_a)) = Some initial_state
   \<and> real_profile initial_state = []
   \<and> conversation_title initial_state = ''initial''
   \<and> map_sum id profile_data (snd (chat_step idle_env ''hello'' ''A'' session_a)) =
       Inr [(''goal'', JStr ''I want to retire early''), (''age'', JBool False), (''salary'', JBool False),
            (''savings'', JBool False), (''location'', JBool False)]
   \<and> map_sum id profile_data
         (snd (chat_step idle_env ''hello'' ''A'' (fst (start_session ''B'' session_a)))) =
       Inr [(''goal'', JBool False), (''age'', JBool False), (''salary'', JBool False),
            (''savings'', JBool False), (''location'', JBool False)]"
  by code_simp

end
